theory Spec2Isabelle
  imports Main
begin

section \<open>Python values, exceptions and text\<close>

text \<open>
  The two scripts (\<^verbatim>\<open>scrape_united.py\<close>, the batch mode, and \<^verbatim>\<open>auto_scraper.py\<close>, the
  interactive mode) drive a browser through Selenium. Everything the browser, the
  console and the clock answer is an input of the model; everything the scripts compute
  from those answers is a HOL function below.

  Exceptions are values. \<^verbatim>\<open>except Exception\<close> catches every exception class but
  \<^verbatim>\<open>KeyboardInterrupt\<close>, which derives from \<^verbatim>\<open>BaseException\<close> only.
\<close>

datatype py_exc =
  KeyboardInterrupt | WebDriverException | ValueError | FileNotFoundError | OSError | EOFError

definition is_Exception :: "py_exc \<Rightarrow> bool" where
  "is_Exception e = (e \<noteq> KeyboardInterrupt)"

text \<open>The values that occur in the fields of a result dictionary.\<close>

datatype pyval = PyNone | PyInt int | PyStr string

text \<open>
  A text is a list of characters, each read as a code point below 256 (the Latin-1 range
  of a Python \<^verbatim>\<open>str\<close>). On this range \<^verbatim>\<open>str.isdigit\<close> accepts the ten decimal digits and
  the three superscript digits U+00B2, U+00B3 and U+00B9; \<^verbatim>\<open>str.isdecimal\<close>, the regular
  expression class \<^verbatim>\<open>\d\<close> and the digits that \<^verbatim>\<open>int()\<close> reads are the ten decimal digits
  only.
\<close>

definition isdecimal :: "char \<Rightarrow> bool" where
  "isdecimal c = (let n = (of_char c :: nat) in 48 \<le> n \<and> n \<le> 57)"

definition isdigit :: "char \<Rightarrow> bool" where
  "isdigit c = (let n = (of_char c :: nat) in (48 \<le> n \<and> n \<le> 57) \<or> n = 178 \<or> n = 179 \<or> n = 185)"

definition isupper_AZ :: "char \<Rightarrow> bool" where
  "isupper_AZ c = (let n = (of_char c :: nat) in 65 \<le> n \<and> n \<le> 90)"

definition isspace :: "char \<Rightarrow> bool" where
  "isspace c = (let n = (of_char c :: nat) in
     (9 \<le> n \<and> n \<le> 13) \<or> (28 \<le> n \<and> n \<le> 32) \<or> n = 133 \<or> n = 160)"

definition strip :: "string \<Rightarrow> string" where
  "strip s = rev (dropWhile isspace (rev (dropWhile isspace s)))"

text \<open>
  \<^verbatim>\<open>int(s)\<close> for a string of characters that \<^verbatim>\<open>str.isdigit\<close> accepts, which is all the
  scrapers pass to it (signs, underscores and blanks of the full grammar of \<^verbatim>\<open>int()\<close>
  cannot occur in such a string). A superscript digit is not a decimal digit:
  \<^verbatim>\<open>int()\<close> raises \<^verbatim>\<open>ValueError\<close>. Python integers are unbounded; the cap that
  recent interpreters put on the length of a decimal string handed to \<^verbatim>\<open>int()\<close> (4300
  digits unless configured otherwise) is not part of the model.
\<close>

definition digit_value :: "char \<Rightarrow> int" where
  "digit_value c = int (of_char c) - 48"

definition py_int :: "string \<Rightarrow> py_exc + int" where
  "py_int s =
     (if s \<noteq> [] \<and> list_all isdecimal s
      then Inr (foldl (\<lambda>a c. 10 * a + digit_value c) 0 s)
      else Inl ValueError)"

text \<open>\<^verbatim>\<open>p.startswith(s)\<close> and the substring test \<^verbatim>\<open>sub in s\<close>.\<close>

fun startswith :: "string \<Rightarrow> string \<Rightarrow> bool" where
  "startswith [] s = True"
| "startswith (p # ps) [] = False"
| "startswith (p # ps) (c # cs) = (p = c \<and> startswith ps cs)"

fun py_in :: "string \<Rightarrow> string \<Rightarrow> bool" where
  "py_in sub [] = (sub = [])"
| "py_in sub (c # cs) = (startswith sub (c # cs) \<or> py_in sub cs)"

text \<open>
  \<^verbatim>\<open>re.search\<close> for a pattern made of a literal key followed by one group of fixed
  width: the leftmost position where the key stands and the next \<open>n\<close> characters have
  the group's shape; the result is the group.
\<close>

fun re_search :: "string \<Rightarrow> nat \<Rightarrow> (string \<Rightarrow> bool) \<Rightarrow> string \<Rightarrow> string option" where
  "re_search key n shape [] = None"
| "re_search key n shape (c # cs) =
     (let rest = drop (length key) (c # cs) in
      if startswith key (c # cs) \<and> n \<le> length rest \<and> shape (take n rest)
      then Some (take n rest)
      else re_search key n shape cs)"

text \<open>The group \<^verbatim>\<open>[A-Z]{3}\<close>.\<close>

definition code_shape :: "string \<Rightarrow> bool" where
  "code_shape s = (length s = 3 \<and> list_all isupper_AZ s)"

text \<open>The group \<^verbatim>\<open>\d{4}-\d{2}-\d{2}\<close>.\<close>

definition date_shape :: "string \<Rightarrow> bool" where
  "date_shape s =
     (length s = 10 \<and> list_all isdecimal (take 4 s) \<and> s ! 4 = CHR ''-'' \<and>
      list_all isdecimal (take 2 (drop 5 s)) \<and> s ! 7 = CHR ''-'' \<and>
      list_all isdecimal (drop 8 s))"

section \<open>The browser as the scripts see it\<close>

text \<open>
  Every call into the driver either raises or answers. An element answers its text and
  its \<^verbatim>\<open>class\<close> attribute; the driver, once it shows a page, answers its current URL,
  the elements a locator finds, a screenshot request and its title. Within one
  extraction each locator is queried at most once, so a function from locators to
  answers also covers a page that changes between two queries.
\<close>

datatype locator = XPATH | CSS_SELECTOR

record web_element =
  elem_text :: "py_exc + string"
  elem_class :: "py_exc + string"

record driver =
  current_url :: "py_exc + string"
  find_elements :: "locator \<Rightarrow> string \<Rightarrow> py_exc + web_element list"
  save_screenshot :: "string \<Rightarrow> py_exc option"
  title :: "py_exc + string"

text \<open>The locators of the two scripts, as written there.\<close>

definition block_xpath :: string where
  "block_xpath = ''//*[contains(text(), 'unable to complete your request') or contains(text(), 'Please try again later')]''"

definition result_css_1 :: string where
  "result_css_1 = ''[class*='flight-result'], [class*='FlightResult'], [data-qa*='flight']''"

definition result_css_2 :: string where
  "result_css_2 = ''[class*='flightCard'], [class*='flight-card']''"

definition result_css_3 :: string where
  "result_css_3 = ''li[class*='flight'], div[class*='flight']''"

definition miles_css :: string where
  "miles_css = ''[class*='miles'], [class*='award-price'], [data-qa*='price']''"

definition no_flights_xpath :: string where
  "no_flights_xpath = ''//*[contains(text(), 'No flights') or contains(text(), 'no flights') or contains(text(), 'not available')]''"

section \<open>The result dictionary\<close>

record flight_data =
  origin :: pyval
  destination :: pyval
  date :: pyval
  flights_found :: pyval
  min_miles :: pyval
  scraped_at :: pyval

text \<open>
  The tail of both extractors: \<^verbatim>\<open>'min_miles': min_miles if min_miles else 'N/A'\<close>. The
  test is Python's truth value, so \<^verbatim>\<open>None\<close> and \<^verbatim>\<open>0\<close> both give \<^verbatim>\<open>'N/A'\<close>.
\<close>

definition miles_or_na :: "int option \<Rightarrow> pyval" where
  "miles_or_na m = (case m of None \<Rightarrow> PyStr ''N/A'' | Some v \<Rightarrow> if v \<noteq> 0 then PyInt v else PyStr ''N/A'')"

definition result_record :: "pyval \<Rightarrow> pyval \<Rightarrow> pyval \<Rightarrow> nat \<Rightarrow> int option \<Rightarrow> string \<Rightarrow> flight_data" where
  "result_record orig dest dt found miles now =
     \<lparr>origin = orig, destination = dest, date = dt,
      flights_found = PyInt (int found), min_miles = miles_or_na miles,
      scraped_at = PyStr now\<rparr>"

definition sentinel_record :: "pyval \<Rightarrow> pyval \<Rightarrow> pyval \<Rightarrow> string \<Rightarrow> string \<Rightarrow> flight_data" where
  "sentinel_record orig dest dt word now =
     \<lparr>origin = orig, destination = dest, date = dt,
      flights_found = PyStr word, min_miles = PyStr word,
      scraped_at = PyStr now\<rparr>"

text \<open>The record of batch mode, whose first three fields are the query.\<close>

abbreviation batch_record :: "string \<Rightarrow> string \<Rightarrow> string \<Rightarrow> string \<Rightarrow> pyval \<Rightarrow> pyval \<Rightarrow> flight_data" where
  "batch_record orig dest date_str now found miles \<equiv>
     \<lparr>origin = PyStr orig, destination = PyStr dest, date = PyStr date_str,
      flights_found = found, min_miles = miles, scraped_at = PyStr now\<rparr>"

section \<open>The extraction steps shared by both scripts\<close>

text \<open>
  The selector cascade: the second and third locator are tried only when the list so far
  is empty.
\<close>

definition flight_cascade :: "driver \<Rightarrow> py_exc + web_element list" where
  "flight_cascade drv =
     (case find_elements drv CSS_SELECTOR result_css_1 of
        Inl e \<Rightarrow> Inl e
      | Inr es1 \<Rightarrow>
          (case (if es1 = [] then find_elements drv CSS_SELECTOR result_css_2 else Inr es1) of
             Inl e \<Rightarrow> Inl e
           | Inr es2 \<Rightarrow>
               (if es2 = [] then find_elements drv CSS_SELECTOR result_css_3 else Inr es2)))"

text \<open>
  The price loop: \<^verbatim>\<open>numbers = ''.join(filter(lambda x: x.isdigit(), text))\<close>, and
  \<^verbatim>\<open>miles_prices.append(int(numbers))\<close> when \<^verbatim>\<open>numbers\<close> is not empty. Reading the text
  of an element can raise, and so can \<^verbatim>\<open>int\<close>.
\<close>

definition digits_of :: "string \<Rightarrow> string" where
  "digits_of t = filter isdigit (strip t)"

fun miles_loop :: "web_element list \<Rightarrow> int list \<Rightarrow> py_exc + int list" where
  "miles_loop [] miles_prices = Inr miles_prices"
| "miles_loop (elem # elems) miles_prices =
     (case elem_text elem of
        Inl e \<Rightarrow> Inl e
      | Inr t \<Rightarrow>
          (let numbers = digits_of t in
           if numbers \<noteq> []
           then (case py_int numbers of
                   Inl e \<Rightarrow> Inl e
                 | Inr n \<Rightarrow> miles_loop elems (miles_prices @ [n]))
           else miles_loop elems miles_prices))"

text \<open>\<^verbatim>\<open>if miles_prices: min_miles = min(miles_prices)\<close>, from \<^verbatim>\<open>min_miles = None\<close>.\<close>

definition select_min :: "int list \<Rightarrow> int option" where
  "select_min miles_prices =
     (case miles_prices of [] \<Rightarrow> None | p # ps \<Rightarrow> Some (fold min ps p))"

text \<open>
  \<^verbatim>\<open>if no_flights_indicators and flights_found == 0\<close>: both locals are reset.
\<close>

definition no_flights_override :: "web_element list \<Rightarrow> nat \<times> int option \<Rightarrow> nat \<times> int option" where
  "no_flights_override no_flights_indicators s =
     (if no_flights_indicators \<noteq> [] \<and> fst s = 0 then (0, None) else s)"

section \<open>Batch mode: \<^verbatim>\<open>scrape_united_awards\<close>\<close>

text \<open>
  The date reaches the function as a \<^verbatim>\<open>datetime\<close>; its first statement renders it with
  \<^verbatim>\<open>strftime('%Y-%m-%d')\<close>, which cannot fail on a \<^verbatim>\<open>datetime\<close>, so the model takes the
  rendered string. \<open>get\<close> is \<^verbatim>\<open>driver.get\<close>: navigation raises, or leaves the driver
  showing a page. \<open>now\<close> is what \<^verbatim>\<open>datetime.now().isoformat()\<close> answers.
\<close>

definition search_url :: "string \<Rightarrow> string \<Rightarrow> string \<Rightarrow> string" where
  "search_url orig dest date_str =
     ''https://www.united.com/en/us/fsr/choose-flights?tt=1&st=bestmatches&d='' @ date_str @
     ''&clm=7&taxng=1&f='' @ orig @
     ''&px=1&newHP=True&fareWheel=true&sc=7&at=0&t='' @ dest"

definition screenshot_path :: "string \<Rightarrow> string \<Rightarrow> string \<Rightarrow> string" where
  "screenshot_path orig dest date_str =
     ''debug_'' @ orig @ ''_'' @ dest @ ''_'' @ date_str @ ''.png''"

text \<open>
  The two diagnostic steps of debug mode that call into the driver: the screenshot and
  the title before the cascade, and the \<^verbatim>\<open>class\<close> attribute of the first result element
  after it. Each answers the exception it raised, if any.
\<close>

definition debug_shot :: "driver \<Rightarrow> bool \<Rightarrow> string \<Rightarrow> py_exc option" where
  "debug_shot drv debug path =
     (if debug
      then (case save_screenshot drv path of
              Some e \<Rightarrow> Some e
            | None \<Rightarrow> (case title drv of Inl e \<Rightarrow> Some e | Inr t \<Rightarrow> None))
      else None)"

definition debug_first_class :: "bool \<Rightarrow> web_element list \<Rightarrow> py_exc option" where
  "debug_first_class debug flight_elements =
     (if debug
      then (case flight_elements of
              [] \<Rightarrow> None
            | elem # elems \<Rightarrow> (case elem_class elem of Inl e \<Rightarrow> Some e | Inr c \<Rightarrow> None))
      else None)"

text \<open>
  The body of the inner \<^verbatim>\<open>try\<close> (lines 65 to 118). It assigns the locals
  \<^verbatim>\<open>flights_found\<close> and \<^verbatim>\<open>min_miles\<close>, which start as \<open>0\<close> and \<^verbatim>\<open>None\<close>; the result is
  the pair of locals where the body stopped, and the exception that stopped it, if any.
\<close>

definition extract_details :: "driver \<Rightarrow> bool \<Rightarrow> string \<Rightarrow> (nat \<times> int option) \<times> py_exc option" where
  "extract_details drv debug path =
     (case debug_shot drv debug path of
        Some e \<Rightarrow> ((0, None), Some e)
      | None \<Rightarrow>
     (case flight_cascade drv of
        Inl e \<Rightarrow> ((0, None), Some e)
      | Inr flight_elements \<Rightarrow>
     (case debug_first_class debug flight_elements of
        Some e \<Rightarrow> ((length flight_elements, None), Some e)
      | None \<Rightarrow>
     (case find_elements drv CSS_SELECTOR miles_css of
        Inl e \<Rightarrow> ((length flight_elements, None), Some e)
      | Inr miles_elements \<Rightarrow>
     (case miles_loop miles_elements [] of
        Inl e \<Rightarrow> ((length flight_elements, None), Some e)
      | Inr miles_prices \<Rightarrow>
     (case find_elements drv XPATH no_flights_xpath of
        Inl e \<Rightarrow> ((length flight_elements, select_min miles_prices), Some e)
      | Inr no_flights_indicators \<Rightarrow>
          (no_flights_override no_flights_indicators
             (length flight_elements, select_min miles_prices), None)))))))"

text \<open>
  The handler of the outer \<^verbatim>\<open>try\<close> (lines 135 to 144): an \<^verbatim>\<open>Exception\<close> becomes the
  \<^verbatim>\<open>ERROR\<close> record, anything else leaves the function.
\<close>

definition error_result :: "string \<Rightarrow> string \<Rightarrow> string \<Rightarrow> string \<Rightarrow> py_exc \<Rightarrow> py_exc + flight_data" where
  "error_result orig dest date_str now e =
     (if is_Exception e
      then Inr (sentinel_record (PyStr orig) (PyStr dest) (PyStr date_str) ''ERROR'' now)
      else Inl e)"

definition scrape_united_awards ::
  "string \<Rightarrow> string \<Rightarrow> string \<Rightarrow> (string \<Rightarrow> py_exc + driver) \<Rightarrow> bool \<Rightarrow> string \<Rightarrow> py_exc + flight_data" where
  "scrape_united_awards orig dest date_str get debug now =
     (case get (search_url orig dest date_str) of
        Inl e \<Rightarrow> error_result orig dest date_str now e
      | Inr drv \<Rightarrow>
     (case find_elements drv XPATH block_xpath of
        Inl e \<Rightarrow> error_result orig dest date_str now e
      | Inr error_messages \<Rightarrow>
          if error_messages \<noteq> []
          then Inr (sentinel_record (PyStr orig) (PyStr dest) (PyStr date_str) ''BLOCKED'' now)
          else
            (case extract_details drv debug (screenshot_path orig dest date_str) of
               ((found, miles), Some e) \<Rightarrow>
                 if is_Exception e
                 then Inr (result_record (PyStr orig) (PyStr dest) (PyStr date_str) found miles now)
                 else Inl e
             | ((found, miles), None) \<Rightarrow>
                 Inr (result_record (PyStr orig) (PyStr dest) (PyStr date_str) found miles now))))"

section \<open>Interactive mode: \<^verbatim>\<open>extract_flight_data\<close>\<close>

text \<open>
  Lines 19 to 34: each of the three fields starts as \<^verbatim>\<open>None\<close>; only when the key occurs
  in the URL is the regular expression tried, and \<^verbatim>\<open>'UNKNOWN'\<close> is what a failed search
  leaves.
\<close>

definition url_field :: "string \<Rightarrow> nat \<Rightarrow> (string \<Rightarrow> bool) \<Rightarrow> string \<Rightarrow> pyval" where
  "url_field key n shape current =
     (if py_in key current
      then (case re_search key n shape current of
              Some g \<Rightarrow> PyStr g
            | None \<Rightarrow> PyStr ''UNKNOWN'')
      else PyNone)"

text \<open>
  The handler of the only \<^verbatim>\<open>try\<close> (lines 106 to 108): an \<^verbatim>\<open>Exception\<close> makes the
  function return \<^verbatim>\<open>None\<close>.
\<close>

definition none_result :: "py_exc \<Rightarrow> py_exc + flight_data option" where
  "none_result e = (if is_Exception e then Inr None else Inl e)"

definition extract_flight_data :: "driver \<Rightarrow> string \<Rightarrow> py_exc + flight_data option" where
  "extract_flight_data drv now =
     (case current_url drv of
        Inl e \<Rightarrow> none_result e
      | Inr current \<Rightarrow>
     (let orig = url_field ''f='' 3 code_shape current;
          dest = url_field ''t='' 3 code_shape current;
          dt = url_field ''d='' 10 date_shape current
      in
     (case find_elements drv XPATH block_xpath of
        Inl e \<Rightarrow> none_result e
      | Inr error_messages \<Rightarrow>
          if error_messages \<noteq> []
          then Inr (Some (sentinel_record orig dest dt ''BLOCKED'' now))
          else
     (case flight_cascade drv of
        Inl e \<Rightarrow> none_result e
      | Inr flight_elements \<Rightarrow>
     (case find_elements drv CSS_SELECTOR miles_css of
        Inl e \<Rightarrow> none_result e
      | Inr miles_elements \<Rightarrow>
     (case miles_loop miles_elements [] of
        Inl e \<Rightarrow> none_result e
      | Inr miles_prices \<Rightarrow>
     (case find_elements drv XPATH no_flights_xpath of
        Inl e \<Rightarrow> none_result e
      | Inr no_flights_indicators \<Rightarrow>
          (case no_flights_override no_flights_indicators
                  (length flight_elements, select_min miles_prices) of
             (found, miles) \<Rightarrow> Inr (Some (result_record orig dest dt found miles now))))))))))"

section \<open>The record store\<close>

text \<open>
  A row is the list of the values \<^verbatim>\<open>csv.DictWriter\<close> is handed for one line, in the order
  of \<^verbatim>\<open>fieldnames\<close>; how the \<^verbatim>\<open>csv\<close> module quotes and terminates a line is its own
  business. A file is absent, present with its rows, or cannot be opened at all (opening
  it raises an \<^verbatim>\<open>OSError\<close> that is not \<^verbatim>\<open>FileNotFoundError\<close>).
\<close>

type_synonym row = "pyval list"

datatype file_state = Absent | Present "row list" | Denied

type_synonym files = "string \<Rightarrow> file_state"

definition fieldnames :: "string list" where
  "fieldnames = [''origin'', ''destination'', ''date'', ''flights_found'', ''min_miles'', ''scraped_at'']"

definition header_row :: row where
  "header_row = map PyStr fieldnames"

definition writerow :: "flight_data \<Rightarrow> row" where
  "writerow d = [origin d, destination d, date d, flights_found d, min_miles d, scraped_at d]"

definition output_file :: string where
  "output_file = ''united_awards.csv''"

text \<open>\<^verbatim>\<open>open(filename, 'r')\<close>: the probe of \<^verbatim>\<open>save_to_csv\<close>.\<close>

definition open_read :: "files \<Rightarrow> string \<Rightarrow> py_exc + row list" where
  "open_read fs filename =
     (case fs filename of
        Absent \<Rightarrow> Inl FileNotFoundError
      | Present rows \<Rightarrow> Inr rows
      | Denied \<Rightarrow> Inl OSError)"

text \<open>\<^verbatim>\<open>open(filename, 'a')\<close> creates an absent file and keeps the rows of a present one.\<close>

definition open_append :: "files \<Rightarrow> string \<Rightarrow> py_exc + row list" where
  "open_append fs filename =
     (case fs filename of
        Absent \<Rightarrow> Inr []
      | Present rows \<Rightarrow> Inr rows
      | Denied \<Rightarrow> Inl OSError)"

text \<open>\<^verbatim>\<open>open(filename, 'w')\<close> creates or empties the file.\<close>

definition open_write :: "files \<Rightarrow> string \<Rightarrow> py_exc + row list" where
  "open_write fs filename =
     (case fs filename of
        Absent \<Rightarrow> Inr []
      | Present rows \<Rightarrow> Inr []
      | Denied \<Rightarrow> Inl OSError)"

text \<open>
  \<^verbatim>\<open>save_to_csv\<close> of \<^verbatim>\<open>auto_scraper.py\<close>. The inner \<^verbatim>\<open>try\<close> turns \<^verbatim>\<open>FileNotFoundError\<close>
  of the probe into \<^verbatim>\<open>write_header = True\<close>; any other \<^verbatim>\<open>Exception\<close> reaches the outer
  handler, which returns \<^verbatim>\<open>False\<close>.
\<close>

definition save_to_csv :: "flight_data \<Rightarrow> string \<Rightarrow> files \<Rightarrow> bool \<times> files" where
  "save_to_csv flight_data filename fs =
     (case (case open_read fs filename of
              Inl e \<Rightarrow> if e = FileNotFoundError then Inr True else Inl e
            | Inr rows \<Rightarrow> Inr False) of
        Inl e \<Rightarrow> (False, fs)
      | Inr write_header \<Rightarrow>
          (case open_append fs filename of
             Inl e \<Rightarrow> (False, fs)
           | Inr rows \<Rightarrow>
               (True, fs(filename := Present
                  (rows @ (if write_header then [header_row] else []) @ [writerow flight_data])))))"

section \<open>Batch mode: \<^verbatim>\<open>main\<close> of \<^verbatim>\<open>scrape_united.py\<close>\<close>

definition AIRPORTS :: "string list" where
  "AIRPORTS =
    [''ATL'', ''LAX'', ''ORD'', ''DFW'', ''DEN'', ''JFK'', ''SFO'', ''SEA'', ''LAS'', ''MCO'',
     ''EWR'', ''CLT'', ''PHX'', ''IAH'', ''MIA'', ''BOS'', ''MSP'', ''FLL'', ''DTW'', ''PHL'',
     ''LGA'', ''BWI'', ''SLC'', ''SAN'', ''DCA'', ''MDW'', ''TPA'', ''PDX'', ''HNL'', ''STL'',
     ''BNA'', ''AUS'', ''OAK'', ''SJC'', ''MCI'', ''RSW'', ''SAT'', ''SMF'', ''DAL'', ''SNA'',
     ''PIT'', ''RDU'', ''CVG'', ''CMH'', ''IND'', ''CLE'', ''JAX'', ''OGG'', ''BDL'', ''MKE'']"

definition routes_of :: "string list \<Rightarrow> (string \<times> string) list" where
  "routes_of airports =
     concat (map (\<lambda>orig. map (\<lambda>dest. (orig, dest)) (filter (\<lambda>dest. orig \<noteq> dest) airports)) airports)"

definition generate_routes :: "(string \<times> string) list" where
  "generate_routes = routes_of AIRPORTS"

text \<open>
  What the world answers during one run: whether the browser starts, what
  \<^verbatim>\<open>driver.get\<close> does with a URL, whether the login prompt returns, the time stamp of the
  \<open>n\<close>-th attempt, whether the user interrupts the pause after the \<open>n\<close>-th attempt
  (\<^verbatim>\<open>time.sleep(wait_time)\<close>, line 225), and the rendering of the date \<open>i\<close> days from the
  start. A user interrupt is \<^verbatim>\<open>KeyboardInterrupt\<close> raised by the call it arrives in. The
  other pauses of the scripts are each followed by a call into the driver or by a prompt
  on the same side of every \<^verbatim>\<open>try\<close>, so an interrupt that arrives in one of them is the
  one raised by the call that follows.
\<close>

record batch_world =
  launch :: "py_exc option"
  web :: "string \<Rightarrow> py_exc + driver"
  login_prompt :: "py_exc option"
  clock :: "nat \<Rightarrow> string"
  pause_interrupted :: "nat \<Rightarrow> bool"
  day :: "nat \<Rightarrow> string"

datatype outcome = Returned | Raised py_exc | Running

record run =
  quit_calls :: nat
  store :: files
  outcome :: outcome

text \<open>
  Lines 185 to 199, the manual login: \<^verbatim>\<open>driver.get("https://www.united.com")\<close>, then
  \<^verbatim>\<open>input(...)\<close>.
\<close>

definition manual_login_phase :: "(string \<Rightarrow> py_exc + driver) \<Rightarrow> py_exc option \<Rightarrow> py_exc option" where
  "manual_login_phase get prompt =
     (case get ''https://www.united.com'' of
        Inl e \<Rightarrow> Some e
      | Inr drv \<Rightarrow> prompt)"

text \<open>
  The two nested \<^verbatim>\<open>for\<close> loops (lines 210 to 225) over the queries in their order, the
  counter \<^verbatim>\<open>current_search\<close> and the rows written so far. A result dictionary has six
  keys, so \<^verbatim>\<open>if flight_data:\<close> holds and the row is written and flushed; the pause
  follows. The result is the rows of the file when the loop ends, and the exception that
  ended it, if any.
\<close>

fun scrape_all ::
  "batch_world \<Rightarrow> bool \<Rightarrow> (string \<times> string \<times> string) list \<Rightarrow> nat \<Rightarrow> row list \<Rightarrow> row list \<times> py_exc option" where
  "scrape_all w debug [] current_search rows = (rows, None)"
| "scrape_all w debug ((orig, dest, date_str) # queries) current_search rows =
     (case scrape_united_awards orig dest date_str (web w) debug (clock w (Suc current_search)) of
        Inl e \<Rightarrow> (rows, Some e)
      | Inr flight_data \<Rightarrow>
          if pause_interrupted w (Suc current_search)
          then (rows @ [writerow flight_data], Some KeyboardInterrupt)
          else scrape_all w debug queries (Suc current_search) (rows @ [writerow flight_data]))"

text \<open>
  The call of line 215 for one query, when \<open>before\<close> attempts were made before it
  (\<^verbatim>\<open>current_search\<close> is one more).
\<close>

definition attempt :: "batch_world \<Rightarrow> bool \<Rightarrow> nat \<Rightarrow> string \<times> string \<times> string \<Rightarrow> py_exc + flight_data" where
  "attempt w debug before q =
     (case q of (orig, dest, date_str) \<Rightarrow>
        scrape_united_awards orig dest date_str (web w) debug (clock w (Suc before)))"

definition queries_of :: "(string \<times> string) list \<Rightarrow> string list \<Rightarrow> (string \<times> string \<times> string) list" where
  "queries_of routes dates =
     concat (map (\<lambda>(orig, dest). map (\<lambda>date_str. (orig, dest, date_str)) dates) routes)"

text \<open>
  \<^verbatim>\<open>main\<close>. The browser is started and the manual login runs before the \<^verbatim>\<open>try\<close>; the
  \<^verbatim>\<open>finally\<close> clause with \<^verbatim>\<open>driver.quit()\<close> belongs to the \<^verbatim>\<open>try\<close> that opens the file and
  runs the loops.
\<close>

definition scrape_united_main :: "bool \<Rightarrow> bool \<Rightarrow> bool \<Rightarrow> batch_world \<Rightarrow> files \<Rightarrow> run" where
  "scrape_united_main test_mode debug manual_login w fs =
     (let routes = (if test_mode then take 1 generate_routes else generate_routes);
          dates = map (day w) (if test_mode then [0..<2] else [0..<365])
      in
      case launch w of
        Some e \<Rightarrow> \<lparr>quit_calls = 0, store = fs, outcome = Raised e\<rparr>
      | None \<Rightarrow>
     (case (if manual_login then manual_login_phase (web w) (login_prompt w) else None) of
        Some e \<Rightarrow> \<lparr>quit_calls = 0, store = fs, outcome = Raised e\<rparr>
      | None \<Rightarrow>
     (case open_write fs output_file of
        Inl e \<Rightarrow> \<lparr>quit_calls = 1, store = fs, outcome = Raised e\<rparr>
      | Inr rows \<Rightarrow>
     (case scrape_all w debug (queries_of routes dates) 0 (rows @ [header_row]) of
        (rows', Some e) \<Rightarrow>
          \<lparr>quit_calls = 1, store = fs(output_file := Present rows'), outcome = Raised e\<rparr>
      | (rows', None) \<Rightarrow>
          \<lparr>quit_calls = 1, store = fs(output_file := Present rows'), outcome = Returned\<rparr>))))"

section \<open>Interactive mode: \<^verbatim>\<open>main\<close> of \<^verbatim>\<open>auto_scraper.py\<close>\<close>

text \<open>
  One pass of the \<^verbatim>\<open>while True\<close> loop sees: the URL read before polling starts, the URLs
  read by the polls that fit into the timeout (the loop of \<^verbatim>\<open>wait_for_search_results\<close>
  ends when the clock passes the deadline, so these are finitely many), the driver as it
  stands when extraction runs, and the time stamp.
\<close>

record search_round =
  first_url :: "py_exc + string"
  polls :: "(py_exc + string) list"
  page :: driver
  stamp :: string

fun poll_loop :: "(py_exc + string) list \<Rightarrow> py_exc + bool" where
  "poll_loop [] = Inr False"
| "poll_loop (u # us) =
     (case u of
        Inl e \<Rightarrow> Inl e
      | Inr current \<Rightarrow>
          if py_in ''choose-flights'' current \<or> py_in ''fsr'' current
          then Inr True
          else poll_loop us)"

definition wait_for_search_results :: "search_round \<Rightarrow> py_exc + bool" where
  "wait_for_search_results r =
     (case first_url r of
        Inl e \<Rightarrow> Inl e
      | Inr last_url \<Rightarrow> poll_loop (polls r))"

text \<open>
  The body of the \<^verbatim>\<open>while True\<close> loop (lines 211 to 234): the files after the pass, and
  the exception that left it, if any.
\<close>

definition search_once :: "search_round \<Rightarrow> files \<Rightarrow> files \<times> py_exc option" where
  "search_once r fs =
     (case wait_for_search_results r of
        Inl e \<Rightarrow> (fs, Some e)
      | Inr found \<Rightarrow>
          if found
          then (case extract_flight_data (page r) (stamp r) of
                  Inl e \<Rightarrow> (fs, Some e)
                | Inr None \<Rightarrow> (fs, None)
                | Inr (Some flight_data) \<Rightarrow> (snd (save_to_csv flight_data output_file fs), None))
          else (fs, None))"

text \<open>
  The loop has no exit of its own: it runs until a pass raises. Over the passes the
  world supplies, the result is the exception that ended the loop, or \<open>None\<close> when every
  supplied pass completed and the loop is still running.
\<close>

fun monitor :: "search_round list \<Rightarrow> files \<Rightarrow> files \<times> py_exc option" where
  "monitor [] fs = (fs, None)"
| "monitor (r # rs) fs =
     (case search_once r fs of
        (fs', Some e) \<Rightarrow> (fs', Some e)
      | (fs', None) \<Rightarrow> monitor rs fs')"

record interactive_world =
  start_prompt :: "py_exc option"
  launch_browser :: "py_exc option"
  homepage :: "py_exc option"
  logged_in_prompt :: "py_exc option"
  rounds :: "search_round list"

text \<open>
  \<^verbatim>\<open>main\<close>: the first prompt and the start of the browser stand before the \<^verbatim>\<open>try\<close>;
  the home page, the login prompt and the loop stand inside it. Both handlers
  (\<^verbatim>\<open>except KeyboardInterrupt\<close>, \<^verbatim>\<open>except Exception\<close>) print and fall through to
  \<^verbatim>\<open>finally\<close>, after which \<^verbatim>\<open>main\<close> returns.
\<close>

definition auto_scraper_main :: "interactive_world \<Rightarrow> files \<Rightarrow> run" where
  "auto_scraper_main w fs =
     (case start_prompt w of
        Some e \<Rightarrow> \<lparr>quit_calls = 0, store = fs, outcome = Raised e\<rparr>
      | None \<Rightarrow>
     (case launch_browser w of
        Some e \<Rightarrow> \<lparr>quit_calls = 0, store = fs, outcome = Raised e\<rparr>
      | None \<Rightarrow>
     (case homepage w of
        Some e \<Rightarrow> \<lparr>quit_calls = 1, store = fs, outcome = Returned\<rparr>
      | None \<Rightarrow>
     (case logged_in_prompt w of
        Some e \<Rightarrow> \<lparr>quit_calls = 1, store = fs, outcome = Returned\<rparr>
      | None \<Rightarrow>
     (case monitor (rounds w) fs of
        (fs', Some e) \<Rightarrow> \<lparr>quit_calls = 1, store = fs', outcome = Returned\<rparr>
      | (fs', None) \<Rightarrow> \<lparr>quit_calls = 0, store = fs', outcome = Running\<rparr>)))))"

section \<open>Concrete pages\<close>

text \<open>
  An element that answers a text, and a page that answers each locator with a fixed
  list: the block phrases, the first tier of the cascade, the price elements and the
  no-availability phrases.
\<close>

definition elem :: "string \<Rightarrow> web_element" where
  "elem t = \<lparr>elem_text = Inr t, elem_class = Inr ''flight''\<rparr>"

definition static_page ::
  "string \<Rightarrow> web_element list \<Rightarrow> web_element list \<Rightarrow> web_element list \<Rightarrow> web_element list \<Rightarrow> driver" where
  "static_page url blocks cards miles nof =
     \<lparr>current_url = Inr url,
      find_elements = (\<lambda>how sel.
         if how = XPATH \<and> sel = block_xpath then Inr blocks
         else if how = CSS_SELECTOR \<and> sel = result_css_1 then Inr cards
         else if how = CSS_SELECTOR \<and> sel = miles_css then Inr miles
         else if how = XPATH \<and> sel = no_flights_xpath then Inr nof
         else Inr []),
      save_screenshot = (\<lambda>p. None),
      title = Inr ''United''\<rparr>"

section \<open>Concrete records\<close>

definition sample :: "string \<Rightarrow> string \<Rightarrow> int \<Rightarrow> flight_data" where
  "sample orig dest miles =
     \<lparr>origin = PyStr orig, destination = PyStr dest, date = PyStr ''2026-01-15'',
      flights_found = PyInt 3, min_miles = PyInt miles,
      scraped_at = PyStr ''2026-01-01T10:00:00''\<rparr>"

section \<open>Concrete pages whose lookups raise\<close>

text \<open>
  A page where the block lookup finds nothing, the first tier of the cascade finds the
  given elements and every other lookup raises; and a page where every lookup raises.
\<close>

definition price_fault_page :: "string \<Rightarrow> web_element list \<Rightarrow> driver" where
  "price_fault_page url cards =
     \<lparr>current_url = Inr url,
      find_elements = (\<lambda>how sel.
         if how = XPATH \<and> sel = block_xpath then Inr []
         else if how = CSS_SELECTOR \<and> sel = result_css_1 then Inr cards
         else Inl WebDriverException),
      save_screenshot = (\<lambda>p. None),
      title = Inr ''United''\<rparr>"

definition dead_page :: "string \<Rightarrow> driver" where
  "dead_page url =
     \<lparr>current_url = Inr url,
      find_elements = (\<lambda>how sel. Inl WebDriverException),
      save_screenshot = (\<lambda>p. None),
      title = Inr ''United''\<rparr>"

section \<open>Occurrence of a key and of a pattern in a URL\<close>

text \<open>
  The two notions the properties of the URL fields are stated with: the key stands
  somewhere in the URL; the key stands somewhere in the URL followed by a group of the
  right width and shape.
\<close>

definition key_occurs :: "string \<Rightarrow> string \<Rightarrow> bool" where
  "key_occurs key url = (\<exists>pre post. url = pre @ key @ post)"

definition pattern_occurs :: "string \<Rightarrow> nat \<Rightarrow> (string \<Rightarrow> bool) \<Rightarrow> string \<Rightarrow> bool" where
  "pattern_occurs key n shape url =
     (\<exists>pre g post. url = pre @ key @ g @ post \<and> length g = n \<and> shape g)"

section \<open>Concrete URLs\<close>

definition lowercase_url :: string where
  "lowercase_url = ''https://www.united.com/en/us/fsr/choose-flights?f=atl&t=LAX''"

definition bare_url :: string where
  "bare_url = ''https://www.united.com/en/us/fsr/choose-flights''"

section \<open>Concrete runs\<close>

text \<open>
  A pass of the interactive loop in which the user never reaches a results page, and one
  in which the second poll sees a results URL; a batch world that answers one search URL
  with a blocked page and fails every other navigation; batch and interactive worlds in
  which the login phase is interrupted or the home page cannot be loaded.
\<close>

definition home_url :: string where
  "home_url = ''https://www.united.com/en/us''"

definition results_url :: string where
  "results_url = ''https://www.united.com/en/us/fsr/choose-flights?f=ATL&t=LAX&d=2026-01-15''"

definition idle_round :: search_round where
  "idle_round =
     \<lparr>first_url = Inr home_url, polls = [Inr home_url, Inr home_url, Inr home_url],
      page = static_page home_url [] [] [] [], stamp = ''2026-01-01T10:00:00''\<rparr>"

definition results_round :: "driver \<Rightarrow> search_round" where
  "results_round drv =
     \<lparr>first_url = Inr home_url, polls = [Inr home_url, Inr results_url],
      page = drv, stamp = ''2026-01-01T10:05:00''\<rparr>"

definition blocked_page :: "string \<Rightarrow> driver" where
  "blocked_page url = static_page url [elem ''Please try again later''] [] [] []"

definition two_query_world :: batch_world where
  "two_query_world =
     \<lparr>launch = None,
      web = (\<lambda>u. if u = search_url ''ATL'' ''LAX'' ''2026-01-15'' then Inr (blocked_page u)
                  else Inl WebDriverException),
      login_prompt = None,
      clock = (\<lambda>n. ''2026-01-01T10:00:00''),
      pause_interrupted = (\<lambda>n. False),
      day = (\<lambda>i. if i = 0 then ''2026-01-15'' else ''2026-01-16'')\<rparr>"

definition interrupted_login_world :: batch_world where
  "interrupted_login_world =
     \<lparr>launch = None,
      web = (\<lambda>u. Inr (static_page u [] [] [] [])),
      login_prompt = Some KeyboardInterrupt,
      clock = (\<lambda>n. ''2026-01-01T10:00:00''),
      pause_interrupted = (\<lambda>n. False),
      day = (\<lambda>i. ''2026-01-15'')\<rparr>"

definition unreachable_home_world :: batch_world where
  "unreachable_home_world =
     \<lparr>launch = None,
      web = (\<lambda>u. Inl WebDriverException),
      login_prompt = None,
      clock = (\<lambda>n. ''2026-01-01T10:00:00''),
      pause_interrupted = (\<lambda>n. False),
      day = (\<lambda>i. ''2026-01-15'')\<rparr>"

definition interrupted_interactive_world :: interactive_world where
  "interrupted_interactive_world =
     \<lparr>start_prompt = None, launch_browser = None, homepage = None,
      logged_in_prompt = Some KeyboardInterrupt, rounds = []\<rparr>"

section \<open>Price texts\<close>

text \<open>
  Two price texts that end in a superscript digit, as a footnote mark or a unit would
  leave it: U+00B9 (superscript one) and U+00B2 (superscript two).
\<close>

definition footnoted :: string where
  "footnoted = ''9,000 miles'' @ [CHR 0xB9]"

definition squared :: string where
  "squared = ''25,000 miles'' @ [CHR 0xB2]"

text \<open>
  What the price step is meant to collect from a list of texts: for each text that
  holds a digit, in order, the value of its digits read as one decimal numeral.
\<close>

definition parsed_prices :: "string list \<Rightarrow> int list" where
  "parsed_prices texts =
     map (\<lambda>t. foldl (\<lambda>a c. 10 * a + digit_value c) 0 (filter isdigit t))
       (filter (\<lambda>t. filter isdigit t \<noteq> []) texts)"

section \<open>Concrete pages with one fault each\<close>

text \<open>
  A page built from the answer to each of the six locators, the outcome of the
  screenshot and the title; elements whose \<^verbatim>\<open>class\<close> attribute or whose text cannot be
  read; and the batch world of two queries in which the user interrupts the pause after
  the first attempt.
\<close>

definition answers ::
  "(py_exc + web_element list) \<Rightarrow> (py_exc + web_element list) \<Rightarrow> (py_exc + web_element list) \<Rightarrow>
   (py_exc + web_element list) \<Rightarrow> (py_exc + web_element list) \<Rightarrow> (py_exc + web_element list) \<Rightarrow>
   locator \<Rightarrow> string \<Rightarrow> py_exc + web_element list" where
  "answers blocks tier1 tier2 tier3 miles nof how sel =
     (if how = XPATH \<and> sel = block_xpath then blocks
      else if how = CSS_SELECTOR \<and> sel = result_css_1 then tier1
      else if how = CSS_SELECTOR \<and> sel = result_css_2 then tier2
      else if how = CSS_SELECTOR \<and> sel = result_css_3 then tier3
      else if how = CSS_SELECTOR \<and> sel = miles_css then miles
      else if how = XPATH \<and> sel = no_flights_xpath then nof
      else Inr [])"

definition probe_page ::
  "py_exc option \<Rightarrow> py_exc + string \<Rightarrow> (locator \<Rightarrow> string \<Rightarrow> py_exc + web_element list) \<Rightarrow> driver" where
  "probe_page shot ttl found =
     \<lparr>current_url = Inr results_url, find_elements = found,
      save_screenshot = (\<lambda>p. shot), title = ttl\<rparr>"

definition stale_class :: web_element where
  "stale_class = \<lparr>elem_text = Inr ''UA 100'', elem_class = Inl WebDriverException\<rparr>"

definition stale_text :: web_element where
  "stale_text = \<lparr>elem_text = Inl WebDriverException, elem_class = Inr ''miles''\<rparr>"

definition nothing :: "py_exc + web_element list" where
  "nothing = Inr []"

definition raising :: "py_exc + web_element list" where
  "raising = Inl WebDriverException"

definition two_cards :: "web_element list" where
  "two_cards = [elem ''UA 100'', elem ''UA 200'']"

definition paused_world :: batch_world where
  "paused_world = two_query_world\<lparr>pause_interrupted := (\<lambda>n. n = 1)\<rparr>"

section \<open>Properties\<close>

subsection \<open>The concrete pages answer as built\<close>

lemma locators_distinct:
  "block_xpath \<noteq> result_css_1" "block_xpath \<noteq> miles_css" "block_xpath \<noteq> no_flights_xpath"
  "result_css_1 \<noteq> miles_css" "result_css_1 \<noteq> no_flights_xpath" "miles_css \<noteq> no_flights_xpath"
  "result_css_2 \<noteq> result_css_1" "result_css_2 \<noteq> miles_css"
  "result_css_3 \<noteq> result_css_1" "result_css_3 \<noteq> miles_css"
  by (simp_all add: block_xpath_def result_css_1_def miles_css_def no_flights_xpath_def
        result_css_2_def result_css_3_def)

lemma static_page_simps:
  "current_url (static_page url blocks cards miles nof) = Inr url"
  "find_elements (static_page url blocks cards miles nof) XPATH block_xpath = Inr blocks"
  "find_elements (static_page url blocks cards miles nof) CSS_SELECTOR result_css_1 = Inr cards"
  "find_elements (static_page url blocks cards miles nof) CSS_SELECTOR result_css_2 = Inr []"
  "find_elements (static_page url blocks cards miles nof) CSS_SELECTOR result_css_3 = Inr []"
  "find_elements (static_page url blocks cards miles nof) CSS_SELECTOR miles_css = Inr miles"
  "find_elements (static_page url blocks cards miles nof) XPATH no_flights_xpath = Inr nof"
  "save_screenshot (static_page url blocks cards miles nof) p = None"
  "title (static_page url blocks cards miles nof) = Inr ''United''"
  by (simp_all add: static_page_def locators_distinct locators_distinct[symmetric])

subsection \<open>Block detection\<close>

text \<open>
  C1. Whenever the page is shown (batch mode: navigation returned; interactive mode: the
  current URL was read) and the block locator finds at least one element, the extractor
  returns a record whose \<open>flights_found\<close> and \<open>min_miles\<close> are both \<^verbatim>\<open>'BLOCKED'\<close>.
  Nothing is assumed about what the other locators answer, nor about the elements they
  find: no later step is consulted.
\<close>

theorem C1_block_detection_dominates:
  "(get (search_url orig dest date_str) = Inr drv \<and>
    find_elements drv XPATH block_xpath = Inr error_messages \<and> error_messages \<noteq> [] \<longrightarrow>
      scrape_united_awards orig dest date_str get debug now =
        Inr \<lparr>origin = PyStr orig, destination = PyStr dest, date = PyStr date_str,
             flights_found = PyStr ''BLOCKED'', min_miles = PyStr ''BLOCKED'',
             scraped_at = PyStr now\<rparr>) \<and>
   (current_url drv' = Inr current \<and>
    find_elements drv' XPATH block_xpath = Inr error_messages' \<and> error_messages' \<noteq> [] \<longrightarrow>
      (\<exists>r. extract_flight_data drv' now' = Inr (Some r) \<and>
           flights_found r = PyStr ''BLOCKED'' \<and> min_miles r = PyStr ''BLOCKED''))"
  by (simp add: scrape_united_awards_def extract_flight_data_def sentinel_record_def Let_def)

theorem C1_witness:
  "scrape_united_awards ''ATL'' ''LAX'' ''2026-01-15''
      (\<lambda>u. Inr (static_page u [elem ''Please try again later''] [elem ''UA 100'']
                   [elem ''12,500 miles''] [elem ''No flights'']))
      False ''2026-01-01T10:00:00'' =
     Inr \<lparr>origin = PyStr ''ATL'', destination = PyStr ''LAX'', date = PyStr ''2026-01-15'',
          flights_found = PyStr ''BLOCKED'', min_miles = PyStr ''BLOCKED'',
          scraped_at = PyStr ''2026-01-01T10:00:00''\<rparr> \<and>
   (\<exists>r. extract_flight_data
          (static_page ''https://www.united.com/en/us/fsr/choose-flights?f=ATL&t=LAX&d=2026-01-15''
             [elem ''Please try again later''] [elem ''UA 100'']
             [elem ''12,500 miles''] [elem ''No flights''])
          ''2026-01-01T10:00:00'' = Inr (Some r) \<and>
        flights_found r = PyStr ''BLOCKED'' \<and> min_miles r = PyStr ''BLOCKED'')"
  using C1_block_detection_dominates
    [of "\<lambda>u. Inr (static_page u [elem ''Please try again later''] [elem ''UA 100'']
                   [elem ''12,500 miles''] [elem ''No flights''])"
        "''ATL''" "''LAX''" "''2026-01-15''"
        "static_page (search_url ''ATL'' ''LAX'' ''2026-01-15'') [elem ''Please try again later'']
           [elem ''UA 100''] [elem ''12,500 miles''] [elem ''No flights'']"
        "[elem ''Please try again later'']" False "''2026-01-01T10:00:00''"
        "static_page ''https://www.united.com/en/us/fsr/choose-flights?f=ATL&t=LAX&d=2026-01-15''
           [elem ''Please try again later''] [elem ''UA 100'']
           [elem ''12,500 miles''] [elem ''No flights'']"
        "''https://www.united.com/en/us/fsr/choose-flights?f=ATL&t=LAX&d=2026-01-15''"
        "[elem ''Please try again later'']" "''2026-01-01T10:00:00''"]
  by (simp add: static_page_simps)

subsection \<open>Evaluating the price loop\<close>

lemma miles_loop_example_one: "miles_loop [elem ''12,500 miles''] [] = Inr [12500]"
  by code_simp

lemma miles_loop_example_zero: "miles_loop [elem ''0 miles''] [] = Inr [0]"
  by code_simp

subsection \<open>The no-availability override\<close>

lemma flight_cascade_empty:
  "find_elements drv CSS_SELECTOR result_css_1 = Inr [] \<Longrightarrow>
   find_elements drv CSS_SELECTOR result_css_2 = Inr [] \<Longrightarrow>
   find_elements drv CSS_SELECTOR result_css_3 = Inr [] \<Longrightarrow> flight_cascade drv = Inr []"
  by (simp add: flight_cascade_def)

lemma flight_cascade_tiers:
  "find_elements drv CSS_SELECTOR result_css_1 = Inr (c # cs) \<Longrightarrow>
     flight_cascade drv = Inr (c # cs)"
  "find_elements drv CSS_SELECTOR result_css_1 = Inr [] \<Longrightarrow>
   find_elements drv CSS_SELECTOR result_css_2 = Inr (c # cs) \<Longrightarrow>
     flight_cascade drv = Inr (c # cs)"
  "find_elements drv CSS_SELECTOR result_css_1 = Inr [] \<Longrightarrow>
   find_elements drv CSS_SELECTOR result_css_2 = Inr [] \<Longrightarrow>
     flight_cascade drv = find_elements drv CSS_SELECTOR result_css_3"
  by (simp_all add: flight_cascade_def)

lemma miles_or_na_None: "miles_or_na None = PyStr ''N/A''"
  by (simp add: miles_or_na_def)

text \<open>
  C4. On a page that is not blocked, where each of the three locators of the cascade
  finds nothing, the price step ran to its end (with any list of parsed prices, empty or
  not) and the no-availability locator finds at least one element, both extractors
  return a record with \<open>flights_found = 0\<close> and \<open>min_miles = 'N/A'\<close>. In batch mode the
  page is the one navigation returned, and the diagnostics of debug mode are not
  interrupted by the user.
\<close>

theorem C4_no_availability_override:
  assumes blocked: "find_elements drv XPATH block_xpath = Inr []"
    and tier1: "find_elements drv CSS_SELECTOR result_css_1 = Inr []"
    and tier2: "find_elements drv CSS_SELECTOR result_css_2 = Inr []"
    and tier3: "find_elements drv CSS_SELECTOR result_css_3 = Inr []"
    and prices: "find_elements drv CSS_SELECTOR miles_css = Inr miles_elements"
                "miles_loop miles_elements [] = Inr miles_prices"
    and phrase: "find_elements drv XPATH no_flights_xpath = Inr no_flights_indicators"
                "no_flights_indicators \<noteq> []"
  shows "(get (search_url orig dest date_str) = Inr drv \<and>
          debug_shot drv debug (screenshot_path orig dest date_str) \<noteq> Some KeyboardInterrupt \<longrightarrow>
           scrape_united_awards orig dest date_str get debug now =
             Inr \<lparr>origin = PyStr orig, destination = PyStr dest, date = PyStr date_str,
                  flights_found = PyInt 0, min_miles = PyStr ''N/A'', scraped_at = PyStr now\<rparr>) \<and>
         (current_url drv = Inr current \<longrightarrow>
           (\<exists>r. extract_flight_data drv now = Inr (Some r) \<and>
                flights_found r = PyInt 0 \<and> min_miles r = PyStr ''N/A''))"
proof (intro conjI impI)
  have cascade: "flight_cascade drv = Inr []"
    using tier1 tier2 tier3 by (rule flight_cascade_empty)
  {
    assume nav: "get (search_url orig dest date_str) = Inr drv \<and>
          debug_shot drv debug (screenshot_path orig dest date_str) \<noteq> Some KeyboardInterrupt"
    have details:
      "extract_details drv debug (screenshot_path orig dest date_str) = ((0, None), None) \<or>
       (\<exists>e. is_Exception e \<and>
            extract_details drv debug (screenshot_path orig dest date_str) = ((0, None), Some e))"
      using nav cascade prices phrase
      by (cases "debug_shot drv debug (screenshot_path orig dest date_str)")
         (auto simp: extract_details_def debug_first_class_def no_flights_override_def
            is_Exception_def)
    then show "scrape_united_awards orig dest date_str get debug now =
             Inr \<lparr>origin = PyStr orig, destination = PyStr dest, date = PyStr date_str,
                  flights_found = PyInt 0, min_miles = PyStr ''N/A'', scraped_at = PyStr now\<rparr>"
      using nav blocked
      by (auto simp: scrape_united_awards_def result_record_def miles_or_na_None)
  }
  {
    assume "current_url drv = Inr current"
    then show "\<exists>r. extract_flight_data drv now = Inr (Some r) \<and>
                flights_found r = PyInt 0 \<and> min_miles r = PyStr ''N/A''"
      using blocked cascade prices phrase
      by (simp add: extract_flight_data_def Let_def no_flights_override_def result_record_def
            miles_or_na_None)
  }
qed

theorem C4_witness:
  "scrape_united_awards ''ATL'' ''LAX'' ''2026-01-15''
      (\<lambda>u. Inr (static_page u [] [] [elem ''12,500 miles''] [elem ''No flights'']))
      False ''2026-01-01T10:00:00'' =
     Inr \<lparr>origin = PyStr ''ATL'', destination = PyStr ''LAX'', date = PyStr ''2026-01-15'',
          flights_found = PyInt 0, min_miles = PyStr ''N/A'',
          scraped_at = PyStr ''2026-01-01T10:00:00''\<rparr> \<and>
   (\<exists>r. extract_flight_data
          (static_page (search_url ''ATL'' ''LAX'' ''2026-01-15'') [] []
             [elem ''12,500 miles''] [elem ''No flights''])
          ''2026-01-01T10:00:00'' = Inr (Some r) \<and>
        flights_found r = PyInt 0 \<and> min_miles r = PyStr ''N/A'')"
  using C4_no_availability_override
    [where drv = "static_page (search_url ''ATL'' ''LAX'' ''2026-01-15'') [] []
             [elem ''12,500 miles''] [elem ''No flights'']"
       and miles_elements = "[elem ''12,500 miles'']" and miles_prices = "[12500]"
       and no_flights_indicators = "[elem ''No flights'']"
       and get = "\<lambda>u. Inr (static_page u [] [] [elem ''12,500 miles''] [elem ''No flights''])"
       and orig = "''ATL''" and dest = "''LAX''" and date_str = "''2026-01-15''"
       and debug = False and now = "''2026-01-01T10:00:00''"
       and current = "search_url ''ATL'' ''LAX'' ''2026-01-15''"]
  by (simp add: static_page_simps miles_loop_example_one debug_shot_def del: miles_loop.simps)

subsection \<open>A recorded price is never zero\<close>

lemma miles_or_na_nonzero: "miles_or_na m \<noteq> PyInt 0"
  by (simp add: miles_or_na_def split: option.splits)

lemma miles_or_na_zero: "miles_or_na (Some 0) = PyStr ''N/A''"
  by (simp add: miles_or_na_def)

lemma scrape_united_awards_min_miles:
  "scrape_united_awards orig dest date_str get debug now = Inr r \<Longrightarrow>
   min_miles r = PyStr ''ERROR'' \<or> min_miles r = PyStr ''BLOCKED'' \<or>
   (\<exists>m. min_miles r = miles_or_na m)"
  by (auto simp: scrape_united_awards_def error_result_def sentinel_record_def result_record_def
           split: sum.splits if_splits prod.splits option.splits)

lemma extract_flight_data_min_miles:
  "extract_flight_data drv now = Inr (Some r) \<Longrightarrow>
   min_miles r = PyStr ''BLOCKED'' \<or> (\<exists>m. min_miles r = miles_or_na m)"
  by (auto simp: extract_flight_data_def none_result_def sentinel_record_def result_record_def
           Let_def split: sum.splits if_splits prod.splits)

text \<open>
  C9. No record that either extractor returns has \<open>min_miles = 0\<close>. And where the page
  is not blocked, every step ran to its end and the least parsed price is \<open>0\<close>, the
  record has \<open>min_miles = 'N/A'\<close>: the truth-value test of the last step treats \<open>0\<close> as it
  treats \<^verbatim>\<open>None\<close>.
\<close>

theorem C9_min_miles_never_zero:
  "(scrape_united_awards orig dest date_str get debug now = Inr r \<longrightarrow> min_miles r \<noteq> PyInt 0) \<and>
   (extract_flight_data drv now = Inr (Some r') \<longrightarrow> min_miles r' \<noteq> PyInt 0) \<and>
   (find_elements pg XPATH block_xpath = Inr [] \<and>
    flight_cascade pg = Inr flight_elements \<and>
    find_elements pg CSS_SELECTOR miles_css = Inr miles_elements \<and>
    miles_loop miles_elements [] = Inr miles_prices \<and>
    select_min miles_prices = Some 0 \<and>
    find_elements pg XPATH no_flights_xpath = Inr no_flights_indicators \<longrightarrow>
      (get' (search_url orig dest date_str) = Inr pg \<and>
       debug_shot pg debug (screenshot_path orig dest date_str) = None \<and>
       debug_first_class debug flight_elements = None \<longrightarrow>
         (\<exists>r. scrape_united_awards orig dest date_str get' debug now = Inr r \<and>
              min_miles r = PyStr ''N/A'')) \<and>
      (current_url pg = Inr current \<longrightarrow>
         (\<exists>r. extract_flight_data pg now = Inr (Some r) \<and> min_miles r = PyStr ''N/A'')))"
proof (intro conjI impI)
  assume "scrape_united_awards orig dest date_str get debug now = Inr r"
  from scrape_united_awards_min_miles[OF this] show "min_miles r \<noteq> PyInt 0"
    by (auto simp: miles_or_na_nonzero)
next
  assume "extract_flight_data drv now = Inr (Some r')"
  from extract_flight_data_min_miles[OF this] show "min_miles r' \<noteq> PyInt 0"
    by (auto simp: miles_or_na_nonzero)
next
  assume pg: "find_elements pg XPATH block_xpath = Inr [] \<and>
    flight_cascade pg = Inr flight_elements \<and>
    find_elements pg CSS_SELECTOR miles_css = Inr miles_elements \<and>
    miles_loop miles_elements [] = Inr miles_prices \<and>
    select_min miles_prices = Some 0 \<and>
    find_elements pg XPATH no_flights_xpath = Inr no_flights_indicators"
  and nav: "get' (search_url orig dest date_str) = Inr pg \<and>
       debug_shot pg debug (screenshot_path orig dest date_str) = None \<and>
       debug_first_class debug flight_elements = None"
  show "\<exists>r. scrape_united_awards orig dest date_str get' debug now = Inr r \<and>
              min_miles r = PyStr ''N/A''"
    using pg nav
    by (simp add: scrape_united_awards_def extract_details_def no_flights_override_def
          result_record_def miles_or_na_zero miles_or_na_None)
next
  assume pg: "find_elements pg XPATH block_xpath = Inr [] \<and>
    flight_cascade pg = Inr flight_elements \<and>
    find_elements pg CSS_SELECTOR miles_css = Inr miles_elements \<and>
    miles_loop miles_elements [] = Inr miles_prices \<and>
    select_min miles_prices = Some 0 \<and>
    find_elements pg XPATH no_flights_xpath = Inr no_flights_indicators"
  and url: "current_url pg = Inr current"
  show "\<exists>r. extract_flight_data pg now = Inr (Some r) \<and> min_miles r = PyStr ''N/A''"
    using pg url
    by (simp add: extract_flight_data_def Let_def no_flights_override_def
          result_record_def miles_or_na_zero miles_or_na_None)
qed

theorem C9_witness:
  "(\<exists>r. scrape_united_awards ''ATL'' ''LAX'' ''2026-01-15''
          (\<lambda>u. Inr (static_page u [] [elem ''UA 100''] [elem ''0 miles''] []))
          False ''2026-01-01T10:00:00'' = Inr r \<and> min_miles r = PyStr ''N/A'') \<and>
   (\<exists>r. extract_flight_data
          (static_page (search_url ''ATL'' ''LAX'' ''2026-01-15'') [] [elem ''UA 100'']
             [elem ''0 miles''] [])
          ''2026-01-01T10:00:00'' = Inr (Some r) \<and> min_miles r = PyStr ''N/A'')"
  using C9_min_miles_never_zero
    [where pg = "static_page (search_url ''ATL'' ''LAX'' ''2026-01-15'') [] [elem ''UA 100'']
             [elem ''0 miles''] []"
       and flight_elements = "[elem ''UA 100'']"
       and miles_elements = "[elem ''0 miles'']" and miles_prices = "[0]"
       and no_flights_indicators = "[]"
       and get' = "\<lambda>u. Inr (static_page u [] [elem ''UA 100''] [elem ''0 miles''] [])"
       and orig = "''ATL''" and dest = "''LAX''" and date_str = "''2026-01-15''"
       and debug = False and now = "''2026-01-01T10:00:00''"
       and current = "search_url ''ATL'' ''LAX'' ''2026-01-15''"]
  by (simp add: static_page_simps miles_loop_example_zero debug_shot_def debug_first_class_def
        flight_cascade_def select_min_def del: miles_loop.simps)

subsection \<open>The record store: header once, rows appended\<close>

lemma save_to_csv_absent:
  "fs filename = Absent \<Longrightarrow>
   save_to_csv d filename fs = (True, fs(filename := Present [header_row, writerow d]))"
  by (simp add: save_to_csv_def open_read_def open_append_def)

lemma save_to_csv_present:
  "fs filename = Present rows \<Longrightarrow>
   save_to_csv d filename fs = (True, fs(filename := Present (rows @ [writerow d])))"
  by (simp add: save_to_csv_def open_read_def open_append_def)

lemma save_to_csv_denied:
  "fs filename = Denied \<Longrightarrow> save_to_csv d filename fs = (False, fs)"
  by (simp add: save_to_csv_def open_read_def)

text \<open>
  C6. Against an absent file, two calls of \<^verbatim>\<open>save_to_csv\<close> leave the header row followed
  by the two data rows, and a third call leaves the same rows followed by the third data
  row. Against a present file, a call leaves the rows it found, followed by the one new
  row. The header is the six column names in the order \<open>origin\<close>, \<open>destination\<close>,
  \<open>date\<close>, \<open>flights_found\<close>, \<open>min_miles\<close>, \<open>scraped_at\<close>, and a data row lists the
  values of a record in that order. No other file changes.
\<close>

theorem C6_header_once:
  "(fs filename = Absent \<longrightarrow>
      save_to_csv db filename (snd (save_to_csv da filename fs)) =
        (True, fs(filename := Present [header_row, writerow da, writerow db])) \<and>
      save_to_csv dc filename (snd (save_to_csv db filename (snd (save_to_csv da filename fs)))) =
        (True, fs(filename := Present [header_row, writerow da, writerow db, writerow dc]))) \<and>
   (fs' filename = Present rows \<longrightarrow>
      save_to_csv d filename fs' = (True, fs'(filename := Present (rows @ [writerow d])))) \<and>
   header_row = [PyStr ''origin'', PyStr ''destination'', PyStr ''date'',
                 PyStr ''flights_found'', PyStr ''min_miles'', PyStr ''scraped_at''] \<and>
   writerow d = [origin d, destination d, date d, flights_found d, min_miles d, scraped_at d]"
  by (simp add: save_to_csv_absent save_to_csv_present header_row_def fieldnames_def writerow_def)

theorem C6_witness:
  "snd (save_to_csv (sample ''ATL'' ''ORD'' 9000) ''united_awards.csv''
     (snd (save_to_csv (sample ''ATL'' ''LAX'' 12500) ''united_awards.csv'' (\<lambda>f. Absent))))
     ''united_awards.csv'' =
     Present [header_row, writerow (sample ''ATL'' ''LAX'' 12500), writerow (sample ''ATL'' ''ORD'' 9000)] \<and>
   snd (save_to_csv (sample ''ATL'' ''DEN'' 15000) ''united_awards.csv''
     (snd (save_to_csv (sample ''ATL'' ''ORD'' 9000) ''united_awards.csv''
       (snd (save_to_csv (sample ''ATL'' ''LAX'' 12500) ''united_awards.csv'' (\<lambda>f. Absent))))))
     ''united_awards.csv'' =
     Present [header_row, writerow (sample ''ATL'' ''LAX'' 12500), writerow (sample ''ATL'' ''ORD'' 9000),
              writerow (sample ''ATL'' ''DEN'' 15000)] \<and>
   snd (save_to_csv (sample ''ATL'' ''DEN'' 15000) ''united_awards.csv''
      ((\<lambda>f. Absent)(''united_awards.csv'' := Present [header_row, writerow (sample ''ATL'' ''LAX'' 12500)])))
     ''united_awards.csv'' =
     Present [header_row, writerow (sample ''ATL'' ''LAX'' 12500), writerow (sample ''ATL'' ''DEN'' 15000)]"
  using C6_header_once
    [where fs = "\<lambda>f. Absent" and filename = "''united_awards.csv''"
       and da = "sample ''ATL'' ''LAX'' 12500" and db = "sample ''ATL'' ''ORD'' 9000"
       and dc = "sample ''ATL'' ''DEN'' 15000" and d = "sample ''ATL'' ''DEN'' 15000"
       and fs' = "(\<lambda>f. Absent)(''united_awards.csv'' := Present [header_row, writerow (sample ''ATL'' ''LAX'' 12500)])"
       and rows = "[header_row, writerow (sample ''ATL'' ''LAX'' 12500)]"]
  by (simp add: save_to_csv_absent save_to_csv_present)

subsection \<open>Faults inside the batch extractor\<close>

lemma price_fault_page_simps:
  "current_url (price_fault_page url cards) = Inr url"
  "find_elements (price_fault_page url cards) XPATH block_xpath = Inr []"
  "find_elements (price_fault_page url cards) CSS_SELECTOR result_css_1 = Inr cards"
  "find_elements (price_fault_page url cards) CSS_SELECTOR miles_css = Inl WebDriverException"
  "save_screenshot (price_fault_page url cards) p = None"
  by (simp_all add: price_fault_page_def locators_distinct locators_distinct[symmetric])

text \<open>
  An exception raised inside the inner \<^verbatim>\<open>try\<close> does not give the \<^verbatim>\<open>ERROR\<close> record: here
  the price lookup raises after the cascade found two elements, and the record keeps the
  count \<open>2\<close> and gets \<^verbatim>\<open>'N/A'\<close>.
\<close>

theorem C3_counterexample:
  "find_elements (price_fault_page (search_url ''ATL'' ''LAX'' ''2026-01-15'') [elem ''UA 100'', elem ''UA 200''])
      CSS_SELECTOR miles_css = Inl WebDriverException \<and>
   scrape_united_awards ''ATL'' ''LAX'' ''2026-01-15''
      (\<lambda>u. Inr (price_fault_page u [elem ''UA 100'', elem ''UA 200'']))
      False ''2026-01-01T10:00:00'' =
     Inr \<lparr>origin = PyStr ''ATL'', destination = PyStr ''LAX'', date = PyStr ''2026-01-15'',
          flights_found = PyInt 2, min_miles = PyStr ''N/A'',
          scraped_at = PyStr ''2026-01-01T10:00:00''\<rparr>"
  by (simp add: price_fault_page_simps scrape_united_awards_def extract_details_def
        debug_shot_def debug_first_class_def flight_cascade_def result_record_def miles_or_na_def
        is_Exception_def)

lemma error_result_Inl: "error_result orig dest date_str now e = Inl e' \<Longrightarrow> e' = KeyboardInterrupt"
  by (auto simp: error_result_def is_Exception_def split: if_splits)

lemma scrape_united_awards_propagates:
  "scrape_united_awards orig dest date_str get debug now = Inl e \<Longrightarrow> e = KeyboardInterrupt"
  by (auto simp: scrape_united_awards_def is_Exception_def dest: error_result_Inl
           split: sum.splits if_splits prod.splits option.splits)

lemma answers_simps:
  "answers blocks tier1 tier2 tier3 miles nof XPATH block_xpath = blocks"
  "answers blocks tier1 tier2 tier3 miles nof CSS_SELECTOR result_css_1 = tier1"
  "answers blocks tier1 tier2 tier3 miles nof CSS_SELECTOR result_css_2 = tier2"
  "answers blocks tier1 tier2 tier3 miles nof CSS_SELECTOR result_css_3 = tier3"
  "answers blocks tier1 tier2 tier3 miles nof CSS_SELECTOR miles_css = miles"
  "answers blocks tier1 tier2 tier3 miles nof XPATH no_flights_xpath = nof"
  by (simp_all add: answers_def block_xpath_def result_css_1_def result_css_2_def
        result_css_3_def miles_css_def no_flights_xpath_def)

lemma probe_page_simps:
  "find_elements (probe_page shot ttl found) = found"
  "save_screenshot (probe_page shot ttl found) p = shot"
  "title (probe_page shot ttl found) = ttl"
  by (simp_all add: probe_page_def)

lemma fault_screenshot:
  "debug \<Longrightarrow> save_screenshot drv path = Some e \<Longrightarrow>
   extract_details drv debug path = ((0, None), Some e)"
  by (simp add: extract_details_def debug_shot_def)

lemma fault_title:
  "debug \<Longrightarrow> save_screenshot drv path = None \<Longrightarrow> title drv = Inl e \<Longrightarrow>
   extract_details drv debug path = ((0, None), Some e)"
  by (simp add: extract_details_def debug_shot_def)

lemma fault_tier1:
  "debug_shot drv debug path = None \<Longrightarrow>
   find_elements drv CSS_SELECTOR result_css_1 = Inl e \<Longrightarrow>
   extract_details drv debug path = ((0, None), Some e)"
  by (simp add: extract_details_def flight_cascade_def)

lemma fault_tier2:
  "debug_shot drv debug path = None \<Longrightarrow>
   find_elements drv CSS_SELECTOR result_css_1 = Inr [] \<Longrightarrow>
   find_elements drv CSS_SELECTOR result_css_2 = Inl e \<Longrightarrow>
   extract_details drv debug path = ((0, None), Some e)"
  by (simp add: extract_details_def flight_cascade_def)

lemma fault_tier3:
  "debug_shot drv debug path = None \<Longrightarrow>
   find_elements drv CSS_SELECTOR result_css_1 = Inr [] \<Longrightarrow>
   find_elements drv CSS_SELECTOR result_css_2 = Inr [] \<Longrightarrow>
   find_elements drv CSS_SELECTOR result_css_3 = Inl e \<Longrightarrow>
   extract_details drv debug path = ((0, None), Some e)"
  by (simp add: extract_details_def flight_cascade_def)

lemma fault_first_class:
  "debug_shot drv debug path = None \<Longrightarrow> flight_cascade drv = Inr (first # others) \<Longrightarrow>
   debug \<Longrightarrow> elem_class first = Inl e \<Longrightarrow>
   extract_details drv debug path = ((Suc (length others), None), Some e)"
  by (simp add: extract_details_def debug_first_class_def)

lemma fault_miles_lookup:
  "debug_shot drv debug path = None \<Longrightarrow> flight_cascade drv = Inr flight_elements \<Longrightarrow>
   debug_first_class debug flight_elements = None \<Longrightarrow>
   find_elements drv CSS_SELECTOR miles_css = Inl e \<Longrightarrow>
   extract_details drv debug path = ((length flight_elements, None), Some e)"
  by (simp add: extract_details_def)

lemma fault_miles_loop:
  "debug_shot drv debug path = None \<Longrightarrow> flight_cascade drv = Inr flight_elements \<Longrightarrow>
   debug_first_class debug flight_elements = None \<Longrightarrow>
   find_elements drv CSS_SELECTOR miles_css = Inr miles_elements \<Longrightarrow>
   miles_loop miles_elements [] = Inl e \<Longrightarrow>
   extract_details drv debug path = ((length flight_elements, None), Some e)"
  by (simp add: extract_details_def)

lemma fault_no_flights_lookup:
  "debug_shot drv debug path = None \<Longrightarrow> flight_cascade drv = Inr flight_elements \<Longrightarrow>
   debug_first_class debug flight_elements = None \<Longrightarrow>
   find_elements drv CSS_SELECTOR miles_css = Inr miles_elements \<Longrightarrow>
   miles_loop miles_elements [] = Inr miles_prices \<Longrightarrow>
   find_elements drv XPATH no_flights_xpath = Inl e \<Longrightarrow>
   extract_details drv debug path = ((length flight_elements, select_min miles_prices), Some e)"
  by (simp add: extract_details_def)

lemma swallowed:
  "get (search_url orig dest date_str) = Inr drv \<Longrightarrow>
   find_elements drv XPATH block_xpath = Inr [] \<Longrightarrow> is_Exception e \<Longrightarrow>
   extract_details drv debug (screenshot_path orig dest date_str) = ((found, miles), Some e) \<Longrightarrow>
   scrape_united_awards orig dest date_str get debug now =
     Inr \<lparr>origin = PyStr orig, destination = PyStr dest, date = PyStr date_str,
          flights_found = PyInt (int found), min_miles = miles_or_na miles,
          scraped_at = PyStr now\<rparr>"
  by (simp add: scrape_united_awards_def result_record_def)

lemma miles_loop_stale_text:
  "miles_loop [elem ''12,500 miles'', stale_text] [] = Inl WebDriverException"
  by code_simp

lemma fixture_simps:
  "nothing = Inr []" "raising = Inl WebDriverException"
  "debug_first_class True two_cards = None"
  "length two_cards = 2"
  "elem_class stale_class = Inl WebDriverException"
  by (simp_all add: nothing_def raising_def two_cards_def debug_first_class_def elem_def stale_class_def)

text \<open>
  C3, as the code has it. Only \<^verbatim>\<open>KeyboardInterrupt\<close> leaves \<^verbatim>\<open>scrape_united_awards\<close>; every
  exception of class \<^verbatim>\<open>Exception\<close> becomes a returned record. Raised by the navigation or
  by the block lookup, it gives the record with \<^verbatim>\<open>'ERROR'\<close> in both fields. Raised later,
  on a page that is not blocked, it is swallowed by the inner handler, and the record is
  fixed by the step that raised: \<open>0\<close> and \<^verbatim>\<open>'N/A'\<close> when it is the screenshot, the title or
  any of the three lookups of the cascade; the number of result elements and \<^verbatim>\<open>'N/A'\<close>
  when it is the \<^verbatim>\<open>class\<close> attribute of the first result element, the price lookup or the
  price loop; the number of result elements and the least parsed price (or \<^verbatim>\<open>'N/A'\<close>) when
  it is the no-availability lookup. In none of these is a field \<^verbatim>\<open>'ERROR'\<close>.
\<close>

theorem C3_faults_become_records:
  "(scrape_united_awards orig dest date_str get debug now = Inl x \<longrightarrow> x = KeyboardInterrupt) \<and>
   (get_nav (search_url orig dest date_str) = Inl e \<and> is_Exception e \<longrightarrow>
      scrape_united_awards orig dest date_str get_nav debug now =
        Inr (batch_record orig dest date_str now (PyStr ''ERROR'') (PyStr ''ERROR''))) \<and>
   (get_blk (search_url orig dest date_str) = Inr drv_blk \<and>
    find_elements drv_blk XPATH block_xpath = Inl e \<and> is_Exception e \<longrightarrow>
      scrape_united_awards orig dest date_str get_blk debug now =
        Inr (batch_record orig dest date_str now (PyStr ''ERROR'') (PyStr ''ERROR''))) \<and>
   (get_shot (search_url orig dest date_str) = Inr drv_shot \<and>
    find_elements drv_shot XPATH block_xpath = Inr [] \<and> is_Exception e \<and>
    debug \<and> save_screenshot drv_shot (screenshot_path orig dest date_str) = Some e \<longrightarrow>
      scrape_united_awards orig dest date_str get_shot debug now =
        Inr (batch_record orig dest date_str now (PyInt 0) (PyStr ''N/A''))) \<and>
   (get_title (search_url orig dest date_str) = Inr drv_title \<and>
    find_elements drv_title XPATH block_xpath = Inr [] \<and> is_Exception e \<and>
    debug \<and> save_screenshot drv_title (screenshot_path orig dest date_str) = None \<and>
    title drv_title = Inl e \<longrightarrow>
      scrape_united_awards orig dest date_str get_title debug now =
        Inr (batch_record orig dest date_str now (PyInt 0) (PyStr ''N/A''))) \<and>
   (get_ta (search_url orig dest date_str) = Inr drv_ta \<and>
    find_elements drv_ta XPATH block_xpath = Inr [] \<and> is_Exception e \<and>
    debug_shot drv_ta debug (screenshot_path orig dest date_str) = None \<and>
    find_elements drv_ta CSS_SELECTOR result_css_1 = Inl e \<longrightarrow>
      scrape_united_awards orig dest date_str get_ta debug now =
        Inr (batch_record orig dest date_str now (PyInt 0) (PyStr ''N/A''))) \<and>
   (get_tb (search_url orig dest date_str) = Inr drv_tb \<and>
    find_elements drv_tb XPATH block_xpath = Inr [] \<and> is_Exception e \<and>
    debug_shot drv_tb debug (screenshot_path orig dest date_str) = None \<and>
    find_elements drv_tb CSS_SELECTOR result_css_1 = Inr [] \<and>
    find_elements drv_tb CSS_SELECTOR result_css_2 = Inl e \<longrightarrow>
      scrape_united_awards orig dest date_str get_tb debug now =
        Inr (batch_record orig dest date_str now (PyInt 0) (PyStr ''N/A''))) \<and>
   (get_tc (search_url orig dest date_str) = Inr drv_tc \<and>
    find_elements drv_tc XPATH block_xpath = Inr [] \<and> is_Exception e \<and>
    debug_shot drv_tc debug (screenshot_path orig dest date_str) = None \<and>
    find_elements drv_tc CSS_SELECTOR result_css_1 = Inr [] \<and>
    find_elements drv_tc CSS_SELECTOR result_css_2 = Inr [] \<and>
    find_elements drv_tc CSS_SELECTOR result_css_3 = Inl e \<longrightarrow>
      scrape_united_awards orig dest date_str get_tc debug now =
        Inr (batch_record orig dest date_str now (PyInt 0) (PyStr ''N/A''))) \<and>
   (get_cls (search_url orig dest date_str) = Inr drv_cls \<and>
    find_elements drv_cls XPATH block_xpath = Inr [] \<and> is_Exception e \<and>
    debug_shot drv_cls debug (screenshot_path orig dest date_str) = None \<and>
    flight_cascade drv_cls = Inr (first # others) \<and> debug \<and> elem_class first = Inl e \<longrightarrow>
      scrape_united_awards orig dest date_str get_cls debug now =
        Inr (batch_record orig dest date_str now (PyInt (1 + int (length others))) (PyStr ''N/A''))) \<and>
   (get_ml (search_url orig dest date_str) = Inr drv_ml \<and>
    find_elements drv_ml XPATH block_xpath = Inr [] \<and> is_Exception e \<and>
    debug_shot drv_ml debug (screenshot_path orig dest date_str) = None \<and>
    flight_cascade drv_ml = Inr cards_ml \<and> debug_first_class debug cards_ml = None \<and>
    find_elements drv_ml CSS_SELECTOR miles_css = Inl e \<longrightarrow>
      scrape_united_awards orig dest date_str get_ml debug now =
        Inr (batch_record orig dest date_str now (PyInt (int (length cards_ml))) (PyStr ''N/A''))) \<and>
   (get_lp (search_url orig dest date_str) = Inr drv_lp \<and>
    find_elements drv_lp XPATH block_xpath = Inr [] \<and> is_Exception e \<and>
    debug_shot drv_lp debug (screenshot_path orig dest date_str) = None \<and>
    flight_cascade drv_lp = Inr cards_lp \<and> debug_first_class debug cards_lp = None \<and>
    find_elements drv_lp CSS_SELECTOR miles_css = Inr elems_lp \<and>
    miles_loop elems_lp [] = Inl e \<longrightarrow>
      scrape_united_awards orig dest date_str get_lp debug now =
        Inr (batch_record orig dest date_str now (PyInt (int (length cards_lp))) (PyStr ''N/A''))) \<and>
   (get_nf (search_url orig dest date_str) = Inr drv_nf \<and>
    find_elements drv_nf XPATH block_xpath = Inr [] \<and> is_Exception e \<and>
    debug_shot drv_nf debug (screenshot_path orig dest date_str) = None \<and>
    flight_cascade drv_nf = Inr cards_nf \<and> debug_first_class debug cards_nf = None \<and>
    find_elements drv_nf CSS_SELECTOR miles_css = Inr elems_nf \<and>
    miles_loop elems_nf [] = Inr prices_nf \<and>
    find_elements drv_nf XPATH no_flights_xpath = Inl e \<longrightarrow>
      scrape_united_awards orig dest date_str get_nf debug now =
        Inr (batch_record orig dest date_str now (PyInt (int (length cards_nf)))
               (miles_or_na (select_min prices_nf))) \<and>
      miles_or_na (select_min prices_nf) \<noteq> PyStr ''ERROR'')"
proof (intro conjI impI, goal_cases)
  case 1
  then show ?case by (rule scrape_united_awards_propagates)
next
  case 2
  then show ?case by (simp add: scrape_united_awards_def error_result_def sentinel_record_def)
next
  case 3
  then show ?case by (simp add: scrape_united_awards_def error_result_def sentinel_record_def)
next
  case 4
  then have "extract_details drv_shot debug (screenshot_path orig dest date_str) = ((0, None), Some e)"
    by (simp add: fault_screenshot)
  with 4 show ?case
    using swallowed[of get_shot orig dest date_str drv_shot e debug 0 None now]
    by (simp add: miles_or_na_None)
next
  case 5
  then have "extract_details drv_title debug (screenshot_path orig dest date_str) = ((0, None), Some e)"
    by (simp add: fault_title)
  with 5 show ?case
    using swallowed[of get_title orig dest date_str drv_title e debug 0 None now]
    by (simp add: miles_or_na_None)
next
  case 6
  then have "extract_details drv_ta debug (screenshot_path orig dest date_str) = ((0, None), Some e)"
    by (simp add: fault_tier1)
  with 6 show ?case
    using swallowed[of get_ta orig dest date_str drv_ta e debug 0 None now]
    by (simp add: miles_or_na_None)
next
  case 7
  then have "extract_details drv_tb debug (screenshot_path orig dest date_str) = ((0, None), Some e)"
    by (simp add: fault_tier2)
  with 7 show ?case
    using swallowed[of get_tb orig dest date_str drv_tb e debug 0 None now]
    by (simp add: miles_or_na_None)
next
  case 8
  then have "extract_details drv_tc debug (screenshot_path orig dest date_str) = ((0, None), Some e)"
    by (simp add: fault_tier3)
  with 8 show ?case
    using swallowed[of get_tc orig dest date_str drv_tc e debug 0 None now]
    by (simp add: miles_or_na_None)
next
  case 9
  then have "extract_details drv_cls debug (screenshot_path orig dest date_str) =
      ((Suc (length others), None), Some e)"
    by (elim conjE) (rule fault_first_class; assumption)
  with 9 show ?case
    using swallowed[of get_cls orig dest date_str drv_cls e debug "Suc (length others)" None now]
    by (simp add: miles_or_na_None)
next
  case 10
  then have "extract_details drv_ml debug (screenshot_path orig dest date_str) =
      ((length cards_ml, None), Some e)"
    by (simp add: fault_miles_lookup)
  with 10 show ?case
    using swallowed[of get_ml orig dest date_str drv_ml e debug "length cards_ml" None now]
    by (simp add: miles_or_na_None)
next
  case 11
  then have "extract_details drv_lp debug (screenshot_path orig dest date_str) =
      ((length cards_lp, None), Some e)"
    by (simp add: fault_miles_loop)
  with 11 show ?case
    using swallowed[of get_lp orig dest date_str drv_lp e debug "length cards_lp" None now]
    by (simp add: miles_or_na_None)
next
  case 12
  then have "extract_details drv_nf debug (screenshot_path orig dest date_str) =
      ((length cards_nf, select_min prices_nf), Some e)"
    by (simp add: fault_no_flights_lookup)
  with 12 show ?case
    using swallowed[of get_nf orig dest date_str drv_nf e debug "length cards_nf" "select_min prices_nf" now]
    by simp
next
  case 13
  show ?case by (simp add: miles_or_na_def split: option.splits)
qed

theorem C3_witness:
  "scrape_united_awards ''ATL'' ''LAX'' ''2026-01-15'' (\<lambda>u. Inl KeyboardInterrupt)
      True ''2026-01-01T10:00:00'' = Inl KeyboardInterrupt \<and>
   scrape_united_awards ''ATL'' ''LAX'' ''2026-01-15'' (\<lambda>u. Inl WebDriverException)
      True ''2026-01-01T10:00:00'' =
     Inr (batch_record ''ATL'' ''LAX'' ''2026-01-15'' ''2026-01-01T10:00:00''
            (PyStr ''ERROR'') (PyStr ''ERROR'')) \<and>
   scrape_united_awards ''ATL'' ''LAX'' ''2026-01-15''
      (\<lambda>u. Inr (probe_page None (Inr ''United'')
                   (answers raising nothing nothing nothing nothing nothing)))
      True ''2026-01-01T10:00:00'' =
     Inr (batch_record ''ATL'' ''LAX'' ''2026-01-15'' ''2026-01-01T10:00:00''
            (PyStr ''ERROR'') (PyStr ''ERROR'')) \<and>
   scrape_united_awards ''ATL'' ''LAX'' ''2026-01-15''
      (\<lambda>u. Inr (probe_page (Some WebDriverException) (Inr ''United'')
                   (answers nothing (Inr two_cards) nothing nothing nothing nothing)))
      True ''2026-01-01T10:00:00'' =
     Inr (batch_record ''ATL'' ''LAX'' ''2026-01-15'' ''2026-01-01T10:00:00''
            (PyInt 0) (PyStr ''N/A'')) \<and>
   scrape_united_awards ''ATL'' ''LAX'' ''2026-01-15''
      (\<lambda>u. Inr (probe_page None (Inl WebDriverException)
                   (answers nothing (Inr two_cards) nothing nothing nothing nothing)))
      True ''2026-01-01T10:00:00'' =
     Inr (batch_record ''ATL'' ''LAX'' ''2026-01-15'' ''2026-01-01T10:00:00''
            (PyInt 0) (PyStr ''N/A'')) \<and>
   scrape_united_awards ''ATL'' ''LAX'' ''2026-01-15''
      (\<lambda>u. Inr (probe_page None (Inr ''United'')
                   (answers nothing raising nothing nothing nothing nothing)))
      True ''2026-01-01T10:00:00'' =
     Inr (batch_record ''ATL'' ''LAX'' ''2026-01-15'' ''2026-01-01T10:00:00''
            (PyInt 0) (PyStr ''N/A'')) \<and>
   scrape_united_awards ''ATL'' ''LAX'' ''2026-01-15''
      (\<lambda>u. Inr (probe_page None (Inr ''United'')
                   (answers nothing nothing raising nothing nothing nothing)))
      True ''2026-01-01T10:00:00'' =
     Inr (batch_record ''ATL'' ''LAX'' ''2026-01-15'' ''2026-01-01T10:00:00''
            (PyInt 0) (PyStr ''N/A'')) \<and>
   scrape_united_awards ''ATL'' ''LAX'' ''2026-01-15''
      (\<lambda>u. Inr (probe_page None (Inr ''United'')
                   (answers nothing nothing nothing raising nothing nothing)))
      True ''2026-01-01T10:00:00'' =
     Inr (batch_record ''ATL'' ''LAX'' ''2026-01-15'' ''2026-01-01T10:00:00''
            (PyInt 0) (PyStr ''N/A'')) \<and>
   scrape_united_awards ''ATL'' ''LAX'' ''2026-01-15''
      (\<lambda>u. Inr (probe_page None (Inr ''United'')
                   (answers nothing (Inr [stale_class, elem ''UA 200'']) nothing nothing
                      nothing nothing)))
      True ''2026-01-01T10:00:00'' =
     Inr (batch_record ''ATL'' ''LAX'' ''2026-01-15'' ''2026-01-01T10:00:00''
            (PyInt 2) (PyStr ''N/A'')) \<and>
   scrape_united_awards ''ATL'' ''LAX'' ''2026-01-15''
      (\<lambda>u. Inr (probe_page None (Inr ''United'')
                   (answers nothing (Inr two_cards) nothing nothing raising nothing)))
      True ''2026-01-01T10:00:00'' =
     Inr (batch_record ''ATL'' ''LAX'' ''2026-01-15'' ''2026-01-01T10:00:00''
            (PyInt 2) (PyStr ''N/A'')) \<and>
   scrape_united_awards ''ATL'' ''LAX'' ''2026-01-15''
      (\<lambda>u. Inr (probe_page None (Inr ''United'')
                   (answers nothing (Inr two_cards) nothing nothing
                      (Inr [elem ''12,500 miles'', stale_text]) nothing)))
      True ''2026-01-01T10:00:00'' =
     Inr (batch_record ''ATL'' ''LAX'' ''2026-01-15'' ''2026-01-01T10:00:00''
            (PyInt 2) (PyStr ''N/A'')) \<and>
   scrape_united_awards ''ATL'' ''LAX'' ''2026-01-15''
      (\<lambda>u. Inr (probe_page None (Inr ''United'')
                   (answers nothing (Inr two_cards) nothing nothing
                      (Inr [elem ''12,500 miles'']) raising)))
      True ''2026-01-01T10:00:00'' =
     Inr (batch_record ''ATL'' ''LAX'' ''2026-01-15'' ''2026-01-01T10:00:00''
            (PyInt 2) (PyInt 12500))"
  using C3_faults_become_records
    [where orig = "''ATL''" and dest = "''LAX''" and date_str = "''2026-01-15''"
       and debug = True and now = "''2026-01-01T10:00:00''"
       and get = "\<lambda>u. Inl KeyboardInterrupt" and x = KeyboardInterrupt
       and e = WebDriverException
       and get_nav = "\<lambda>u. Inl WebDriverException"
       and get_blk = "\<lambda>u. Inr (probe_page None (Inr ''United'')
                   (answers raising nothing nothing nothing nothing nothing))"
       and drv_blk = "probe_page None (Inr ''United'')
                   (answers raising nothing nothing nothing nothing nothing)"
       and get_shot = "\<lambda>u. Inr (probe_page (Some WebDriverException) (Inr ''United'')
                   (answers nothing (Inr two_cards) nothing nothing nothing nothing))"
       and drv_shot = "probe_page (Some WebDriverException) (Inr ''United'')
                   (answers nothing (Inr two_cards) nothing nothing nothing nothing)"
       and get_title = "\<lambda>u. Inr (probe_page None (Inl WebDriverException)
                   (answers nothing (Inr two_cards) nothing nothing nothing nothing))"
       and drv_title = "probe_page None (Inl WebDriverException)
                   (answers nothing (Inr two_cards) nothing nothing nothing nothing)"
       and get_ta = "\<lambda>u. Inr (probe_page None (Inr ''United'')
                   (answers nothing raising nothing nothing nothing nothing))"
       and drv_ta = "probe_page None (Inr ''United'')
                   (answers nothing raising nothing nothing nothing nothing)"
       and get_tb = "\<lambda>u. Inr (probe_page None (Inr ''United'')
                   (answers nothing nothing raising nothing nothing nothing))"
       and drv_tb = "probe_page None (Inr ''United'')
                   (answers nothing nothing raising nothing nothing nothing)"
       and get_tc = "\<lambda>u. Inr (probe_page None (Inr ''United'')
                   (answers nothing nothing nothing raising nothing nothing))"
       and drv_tc = "probe_page None (Inr ''United'')
                   (answers nothing nothing nothing raising nothing nothing)"
       and get_cls = "\<lambda>u. Inr (probe_page None (Inr ''United'')
                   (answers nothing (Inr [stale_class, elem ''UA 200'']) nothing nothing
                      nothing nothing))"
       and drv_cls = "probe_page None (Inr ''United'')
                   (answers nothing (Inr [stale_class, elem ''UA 200'']) nothing nothing
                      nothing nothing)"
       and first = stale_class and others = "[elem ''UA 200'']"
       and get_ml = "\<lambda>u. Inr (probe_page None (Inr ''United'')
                   (answers nothing (Inr two_cards) nothing nothing raising nothing))"
       and drv_ml = "probe_page None (Inr ''United'')
                   (answers nothing (Inr two_cards) nothing nothing raising nothing)"
       and cards_ml = two_cards
       and get_lp = "\<lambda>u. Inr (probe_page None (Inr ''United'')
                   (answers nothing (Inr two_cards) nothing nothing
                      (Inr [elem ''12,500 miles'', stale_text]) nothing))"
       and drv_lp = "probe_page None (Inr ''United'')
                   (answers nothing (Inr two_cards) nothing nothing
                      (Inr [elem ''12,500 miles'', stale_text]) nothing)"
       and cards_lp = two_cards and elems_lp = "[elem ''12,500 miles'', stale_text]"
       and get_nf = "\<lambda>u. Inr (probe_page None (Inr ''United'')
                   (answers nothing (Inr two_cards) nothing nothing
                      (Inr [elem ''12,500 miles'']) raising))"
       and drv_nf = "probe_page None (Inr ''United'')
                   (answers nothing (Inr two_cards) nothing nothing
                      (Inr [elem ''12,500 miles'']) raising)"
       and cards_nf = two_cards and elems_nf = "[elem ''12,500 miles'']"
       and prices_nf = "[12500]"]
  by (simp add: probe_page_simps answers_simps fixture_simps is_Exception_def debug_shot_def
        flight_cascade_def miles_loop_stale_text miles_loop_example_one select_min_def
        miles_or_na_def scrape_united_awards_def error_result_def two_cards_def[symmetric]
        del: miles_loop.simps)

subsection \<open>Substring test and pattern search\<close>

lemma startswith_iff: "startswith p s \<longleftrightarrow> (\<exists>post. s = p @ post)"
  by (induction p s rule: startswith.induct) auto

lemma py_in_iff: "py_in sub s \<longleftrightarrow> key_occurs sub s"
proof (induction s)
  case Nil
  then show ?case by (auto simp: key_occurs_def)
next
  case (Cons c cs)
  show ?case
  proof
    assume "py_in sub (c # cs)"
    then consider "startswith sub (c # cs)" | "py_in sub cs" by auto
    then show "key_occurs sub (c # cs)"
    proof cases
      case 1
      then obtain post where "c # cs = sub @ post" by (auto simp: startswith_iff)
      then have "c # cs = [] @ sub @ post" by simp
      then show ?thesis unfolding key_occurs_def by blast
    next
      case 2
      then obtain pre post where "cs = pre @ sub @ post" using Cons.IH by (auto simp: key_occurs_def)
      then have "c # cs = (c # pre) @ sub @ post" by simp
      then show ?thesis unfolding key_occurs_def by blast
    qed
  next
    assume "key_occurs sub (c # cs)"
    then obtain pre post where eq: "c # cs = pre @ sub @ post" by (auto simp: key_occurs_def)
    show "py_in sub (c # cs)"
    proof (cases pre)
      case Nil
      then have "startswith sub (c # cs)" using eq by (auto simp: startswith_iff)
      then show ?thesis by simp
    next
      case (Cons a pre')
      then have "cs = pre' @ sub @ post" using eq by simp
      then have "key_occurs sub cs" unfolding key_occurs_def by blast
      then show ?thesis using Cons.IH by simp
    qed
  qed
qed

lemma match_here_iff:
  "(startswith key s \<and> n \<le> length (drop (length key) s) \<and> shape (take n (drop (length key) s))) \<longleftrightarrow>
   (\<exists>g post. s = key @ g @ post \<and> length g = n \<and> shape g)"
proof
  assume h: "startswith key s \<and> n \<le> length (drop (length key) s) \<and> shape (take n (drop (length key) s))"
  then obtain rest where s: "s = key @ rest" by (auto simp: startswith_iff)
  then have "s = key @ take n rest @ drop n rest" by simp
  moreover have "length (take n rest) = n" using h s by simp
  moreover have "shape (take n rest)" using h s by simp
  ultimately show "\<exists>g post. s = key @ g @ post \<and> length g = n \<and> shape g" by blast
next
  assume "\<exists>g post. s = key @ g @ post \<and> length g = n \<and> shape g"
  then obtain g post where "s = key @ g @ post" "length g = n" "shape g" by blast
  then show "startswith key s \<and> n \<le> length (drop (length key) s) \<and> shape (take n (drop (length key) s))"
    by (auto simp: startswith_iff)
qed

lemma re_search_None_iff:
  "key \<noteq> [] \<Longrightarrow> re_search key n shape s = None \<longleftrightarrow> \<not> pattern_occurs key n shape s"
proof (induction s)
  case Nil
  then show ?case by (auto simp: pattern_occurs_def)
next
  case (Cons c cs)
  have here: "pattern_occurs key n shape (c # cs) \<longleftrightarrow>
     (\<exists>g post. c # cs = key @ g @ post \<and> length g = n \<and> shape g) \<or> pattern_occurs key n shape cs"
  proof
    assume "pattern_occurs key n shape (c # cs)"
    then obtain pre g post where eq: "c # cs = pre @ key @ g @ post" "length g = n" "shape g"
      by (auto simp: pattern_occurs_def)
    show "(\<exists>g post. c # cs = key @ g @ post \<and> length g = n \<and> shape g) \<or> pattern_occurs key n shape cs"
    proof (cases pre)
      case Nil
      then show ?thesis using eq by auto
    next
      case (Cons a pre')
      then have "cs = pre' @ key @ g @ post" using eq by simp
      then have "pattern_occurs key n shape cs" using eq unfolding pattern_occurs_def by blast
      then show ?thesis by simp
    qed
  next
    assume "(\<exists>g post. c # cs = key @ g @ post \<and> length g = n \<and> shape g) \<or> pattern_occurs key n shape cs"
    then show "pattern_occurs key n shape (c # cs)"
    proof
      assume "\<exists>g post. c # cs = key @ g @ post \<and> length g = n \<and> shape g"
      then obtain g post where "c # cs = [] @ key @ g @ post" "length g = n" "shape g" by auto
      then show ?thesis unfolding pattern_occurs_def by blast
    next
      assume "pattern_occurs key n shape cs"
      then obtain pre g post where "cs = pre @ key @ g @ post" "length g = n" "shape g"
        by (auto simp: pattern_occurs_def)
      then have "c # cs = (c # pre) @ key @ g @ post \<and> length g = n \<and> shape g" by simp
      then show ?thesis unfolding pattern_occurs_def by blast
    qed
  qed
  show ?case
  proof (cases "startswith key (c # cs) \<and> n \<le> length (drop (length key) (c # cs)) \<and>
                shape (take n (drop (length key) (c # cs)))")
    case True
    then have "re_search key n shape (c # cs) \<noteq> None"
      by (simp add: Let_def del: startswith.simps)
    moreover have "pattern_occurs key n shape (c # cs)"
      using True match_here_iff[of key "c # cs" n shape] here by blast
    ultimately show ?thesis by simp
  next
    case False
    then have "re_search key n shape (c # cs) = re_search key n shape cs"
      by (auto simp: Let_def simp del: startswith.simps)
    moreover have "pattern_occurs key n shape (c # cs) \<longleftrightarrow> pattern_occurs key n shape cs"
      using False match_here_iff[of key "c # cs" n shape] here by blast
    ultimately show ?thesis using Cons.IH Cons.prems by simp
  qed
qed

lemma re_search_Some:
  "re_search key n shape s = Some g \<Longrightarrow>
   length g = n \<and> shape g \<and> (\<exists>pre post. s = pre @ key @ g @ post)"
proof (induction s)
  case Nil
  then show ?case by simp
next
  case (Cons c cs)
  show ?case
  proof (cases "startswith key (c # cs) \<and> n \<le> length (drop (length key) (c # cs)) \<and>
                shape (take n (drop (length key) (c # cs)))")
    case True
    then have g: "g = take n (drop (length key) (c # cs))"
      using Cons.prems by (simp add: Let_def del: startswith.simps)
    from True obtain rest where s: "c # cs = key @ rest" by (auto simp: startswith_iff)
    have "c # cs = [] @ key @ g @ drop n rest" using g s by (metis append_Nil append_eq_conv_conj append_take_drop_id)
    then show ?thesis using True g by (metis length_take min.absorb2)
  next
    case False
    then have "re_search key n shape cs = Some g"
      using Cons.prems by (simp add: Let_def del: startswith.simps split: if_splits)
    from Cons.IH[OF this] obtain pre post where
      "length g = n" "shape g" "cs = pre @ key @ g @ post" by blast
    then have "c # cs = (c # pre) @ key @ g @ post" by simp
    then show ?thesis using \<open>length g = n\<close> \<open>shape g\<close> by blast
  qed
qed


subsection \<open>The fields read from the URL\<close>

lemma url_field_cases:
  assumes "key \<noteq> []"
  shows "(\<not> key_occurs key url \<longrightarrow> url_field key n shape url = PyNone) \<and>
         (key_occurs key url \<and> \<not> pattern_occurs key n shape url \<longrightarrow>
            url_field key n shape url = PyStr ''UNKNOWN'') \<and>
         (pattern_occurs key n shape url \<longrightarrow>
            (\<exists>g pre post. url_field key n shape url = PyStr g \<and> length g = n \<and> shape g \<and>
                 url = pre @ key @ g @ post))"
proof (intro conjI impI)
  assume "\<not> key_occurs key url"
  then show "url_field key n shape url = PyNone"
    by (simp add: url_field_def py_in_iff)
next
  assume "key_occurs key url \<and> \<not> pattern_occurs key n shape url"
  then show "url_field key n shape url = PyStr ''UNKNOWN''"
    using re_search_None_iff[OF assms, of n shape url] by (simp add: url_field_def py_in_iff)
next
  assume p: "pattern_occurs key n shape url"
  then have "key_occurs key url"
    unfolding pattern_occurs_def key_occurs_def by (metis append.assoc)
  moreover obtain g where g: "re_search key n shape url = Some g"
    using p re_search_None_iff[OF assms, of n shape url] by auto
  ultimately have "url_field key n shape url = PyStr g"
    by (simp add: url_field_def py_in_iff)
  then show "\<exists>g pre post. url_field key n shape url = PyStr g \<and> length g = n \<and> shape g \<and>
                 url = pre @ key @ g @ post"
    using re_search_Some[OF g] by blast
qed

lemma extract_flight_data_url_fields:
  "current_url drv = Inr url \<Longrightarrow> extract_flight_data drv now = Inr (Some r) \<Longrightarrow>
   origin r = url_field ''f='' 3 code_shape url \<and>
   destination r = url_field ''t='' 3 code_shape url \<and>
   date r = url_field ''d='' 10 date_shape url"
  by (auto simp: extract_flight_data_def none_result_def sentinel_record_def result_record_def
        Let_def split: sum.splits if_splits prod.splits)

text \<open>
  C8, as the code has it. Whenever interactive extraction returns a record, each of
  \<open>origin\<close>, \<open>destination\<close> and \<open>date\<close> is: \<^verbatim>\<open>None\<close> when its key (\<^verbatim>\<open>f=\<close>, \<^verbatim>\<open>t=\<close>,
  \<^verbatim>\<open>d=\<close>) does not occur in the current URL; \<^verbatim>\<open>'UNKNOWN'\<close> when the key occurs but is
  nowhere followed by a well-formed value (three letters \<^verbatim>\<open>A-Z\<close>, or \<^verbatim>\<open>YYYY-MM-DD\<close> in
  decimal digits); and otherwise a well-formed value that follows the key in the URL.
\<close>

theorem C8_url_fields:
  assumes "current_url drv = Inr url" and "extract_flight_data drv now = Inr (Some r)"
  shows "(\<not> key_occurs ''f='' url \<longrightarrow> origin r = PyNone) \<and>
         (key_occurs ''f='' url \<and> \<not> pattern_occurs ''f='' 3 code_shape url \<longrightarrow>
            origin r = PyStr ''UNKNOWN'') \<and>
         (pattern_occurs ''f='' 3 code_shape url \<longrightarrow>
            (\<exists>g pre post. origin r = PyStr g \<and> code_shape g \<and> url = pre @ ''f='' @ g @ post)) \<and>
         (\<not> key_occurs ''t='' url \<longrightarrow> destination r = PyNone) \<and>
         (key_occurs ''t='' url \<and> \<not> pattern_occurs ''t='' 3 code_shape url \<longrightarrow>
            destination r = PyStr ''UNKNOWN'') \<and>
         (pattern_occurs ''t='' 3 code_shape url \<longrightarrow>
            (\<exists>g pre post. destination r = PyStr g \<and> code_shape g \<and> url = pre @ ''t='' @ g @ post)) \<and>
         (\<not> key_occurs ''d='' url \<longrightarrow> date r = PyNone) \<and>
         (key_occurs ''d='' url \<and> \<not> pattern_occurs ''d='' 10 date_shape url \<longrightarrow>
            date r = PyStr ''UNKNOWN'') \<and>
         (pattern_occurs ''d='' 10 date_shape url \<longrightarrow>
            (\<exists>g pre post. date r = PyStr g \<and> date_shape g \<and> url = pre @ ''d='' @ g @ post))"
proof -
  note fields = extract_flight_data_url_fields[OF assms]
  have f: "''f='' \<noteq> []" and t: "''t='' \<noteq> []" and d: "''d='' \<noteq> []" by simp_all
  show ?thesis
    using url_field_cases[OF f, of url 3 code_shape] url_field_cases[OF t, of url 3 code_shape]
      url_field_cases[OF d, of url 10 date_shape] fields
    by metis
qed

text \<open>
  A results URL without any query parameter: the three fields are \<^verbatim>\<open>None\<close>, not
  \<^verbatim>\<open>'UNKNOWN'\<close>.
\<close>

theorem C8_counterexample:
  "\<not> py_in ''f='' bare_url \<and> \<not> py_in ''t='' bare_url \<and> \<not> py_in ''d='' bare_url \<and>
   extract_flight_data (static_page bare_url [] [] [] []) ''2026-01-01T10:00:00'' =
     Inr (Some \<lparr>origin = PyNone, destination = PyNone, date = PyNone,
                flights_found = PyInt 0, min_miles = PyStr ''N/A'',
                scraped_at = PyStr ''2026-01-01T10:00:00''\<rparr>)"
proof -
  have "\<not> py_in ''f='' bare_url" "\<not> py_in ''t='' bare_url" "\<not> py_in ''d='' bare_url"
    by (simp_all add: bare_url_def)
  then show ?thesis
    by (simp add: extract_flight_data_def static_page_simps url_field_def flight_cascade_def
          select_min_def no_flights_override_def result_record_def miles_or_na_def)
qed

theorem C8_witness:
  "extract_flight_data (static_page lowercase_url [] [] [] []) ''2026-01-01T10:00:00'' =
     Inr (Some \<lparr>origin = PyStr ''UNKNOWN'', destination = PyStr ''LAX'', date = PyNone,
                flights_found = PyInt 0, min_miles = PyStr ''N/A'',
                scraped_at = PyStr ''2026-01-01T10:00:00''\<rparr>) \<and>
   key_occurs ''f='' lowercase_url \<and> \<not> pattern_occurs ''f='' 3 code_shape lowercase_url \<and>
   pattern_occurs ''t='' 3 code_shape lowercase_url \<and>
   \<not> key_occurs ''d='' lowercase_url"
proof -
  have f1: "py_in ''f='' lowercase_url" by (simp add: lowercase_url_def)
  have f2: "re_search ''f='' 3 code_shape lowercase_url = None" unfolding lowercase_url_def by code_simp
  have t1: "py_in ''t='' lowercase_url" by (simp add: lowercase_url_def)
  have t2: "re_search ''t='' 3 code_shape lowercase_url = Some ''LAX''" unfolding lowercase_url_def by code_simp
  have d1: "\<not> py_in ''d='' lowercase_url" by (simp add: lowercase_url_def)
  have ex: "extract_flight_data (static_page lowercase_url [] [] [] []) ''2026-01-01T10:00:00'' =
     Inr (Some \<lparr>origin = PyStr ''UNKNOWN'', destination = PyStr ''LAX'', date = PyNone,
                flights_found = PyInt 0, min_miles = PyStr ''N/A'',
                scraped_at = PyStr ''2026-01-01T10:00:00''\<rparr>)"
    using f1 f2 t1 t2 d1
    by (simp add: extract_flight_data_def static_page_simps url_field_def flight_cascade_def
          select_min_def no_flights_override_def result_record_def miles_or_na_def)
  have occ: "key_occurs ''f='' lowercase_url" "\<not> pattern_occurs ''f='' 3 code_shape lowercase_url"
    "pattern_occurs ''t='' 3 code_shape lowercase_url" "\<not> key_occurs ''d='' lowercase_url"
    using f1 f2 t1 t2 d1 re_search_None_iff[of "''f=''" 3 code_shape lowercase_url]
      re_search_None_iff[of "''t=''" 3 code_shape lowercase_url]
    by (simp_all add: py_in_iff)
  from C8_url_fields[OF static_page_simps(1) ex] occ ex show ?thesis by simp
qed

subsection \<open>Rows written per attempt\<close>

lemma scrape_all_rows:
  "scrape_all w debug queries n rows = (rows', x) \<Longrightarrow>
   \<exists>new. rows' = rows @ new \<and>
     (x = None \<longrightarrow> length new = length queries) \<and>
     (x \<noteq> None \<longrightarrow> x = Some KeyboardInterrupt \<and> length new \<le> length queries)"
proof (induction queries arbitrary: n rows)
  case Nil
  then show ?case by simp
next
  case (Cons q queries)
  obtain orig dest date_str where q: "q = (orig, dest, date_str)" by (cases q) auto
  show ?case
  proof (cases "scrape_united_awards orig dest date_str (web w) debug (clock w (Suc n))")
    case (Inl e)
    then have "rows' = rows" "x = Some e" using Cons.prems q by auto
    moreover have "e = KeyboardInterrupt" using Inl by (rule scrape_united_awards_propagates)
    ultimately show ?thesis by simp
  next
    case (Inr d)
    show ?thesis
    proof (cases "pause_interrupted w (Suc n)")
      case True
      then have "rows' = rows @ [writerow d]" "x = Some KeyboardInterrupt"
        using Cons.prems q Inr by auto
      then show ?thesis by simp
    next
      case False
      then have "scrape_all w debug queries (Suc n) (rows @ [writerow d]) = (rows', x)"
        using Cons.prems q Inr by simp
      from Cons.IH[OF this] obtain new where
        new: "rows' = (rows @ [writerow d]) @ new"
        "x = None \<longrightarrow> length new = length queries"
        "x \<noteq> None \<longrightarrow> x = Some KeyboardInterrupt \<and> length new \<le> length queries"
        by blast
      have "rows' = rows @ (writerow d # new)" using new(1) by simp
      moreover have "x = None \<longrightarrow> length (writerow d # new) = length (q # queries)"
        using new(2) by simp
      moreover have "x \<noteq> None \<longrightarrow>
          x = Some KeyboardInterrupt \<and> length (writerow d # new) \<le> length (q # queries)"
        using new(3) by simp
      ultimately show ?thesis by blast
    qed
  qed
qed

lemma length_queries_of: "length (queries_of routes dates) = length routes * length dates"
  by (induction routes) (auto simp: queries_of_def)

lemma scrape_united_main_rows:
  assumes "outcome (scrape_united_main test_mode debug manual_login w fs) = Returned"
  shows "\<exists>new. store (scrape_united_main test_mode debug manual_login w fs) output_file =
                 Present (header_row # new) \<and>
               length new = length (if test_mode then take 1 generate_routes else generate_routes) *
                            (if test_mode then 2 else 365)"
proof -
  let ?routes = "if test_mode then take 1 generate_routes else generate_routes"
  let ?dates = "map (day w) (if test_mode then [0..<2] else [0..<365])"
  obtain rows' x where run: "scrape_all w debug (queries_of ?routes ?dates) 0 ([] @ [header_row]) = (rows', x)"
    by (cases "scrape_all w debug (queries_of ?routes ?dates) 0 ([] @ [header_row])") auto
  have ow: "open_write fs output_file = Inr [] \<or> open_write fs output_file = Inl OSError"
    by (simp add: open_write_def split: file_state.splits)
  from assms have x: "x = None" and st: "store (scrape_united_main test_mode debug manual_login w fs) output_file = Present rows'"
    using run ow
    by (auto simp: scrape_united_main_def Let_def split: option.splits sum.splits if_splits)
  from scrape_all_rows[OF run] x obtain new where
    "rows' = ([] @ [header_row]) @ new" "length new = length (queries_of ?routes ?dates)" by auto
  then show ?thesis using st by (auto simp: length_queries_of)
qed

lemma first_route: "take 1 generate_routes = [(''ATL'', ''LAX'')]"
  by (simp add: generate_routes_def routes_of_def AIRPORTS_def)

lemma main_two_queries:
  "store (scrape_united_main True False False two_query_world (\<lambda>f. Absent)) output_file =
     Present [header_row,
       writerow \<lparr>origin = PyStr ''ATL'', destination = PyStr ''LAX'', date = PyStr ''2026-01-15'',
                 flights_found = PyStr ''BLOCKED'', min_miles = PyStr ''BLOCKED'',
                 scraped_at = PyStr ''2026-01-01T10:00:00''\<rparr>,
       writerow \<lparr>origin = PyStr ''ATL'', destination = PyStr ''LAX'', date = PyStr ''2026-01-16'',
                 flights_found = PyStr ''ERROR'', min_miles = PyStr ''ERROR'',
                 scraped_at = PyStr ''2026-01-01T10:00:00''\<rparr>] \<and>
   outcome (scrape_united_main True False False two_query_world (\<lambda>f. Absent)) = Returned \<and>
   quit_calls (scrape_united_main True False False two_query_world (\<lambda>f. Absent)) = 1"
  by code_simp

lemma search_once_saved:
  "wait_for_search_results r = Inr True \<Longrightarrow>
   extract_flight_data (page r) (stamp r) = Inr (Some d) \<Longrightarrow>
   search_once r fs = (snd (save_to_csv d output_file fs), None)"
  by (simp add: search_once_def)

lemma wait_idle: "wait_for_search_results idle_round = Inr False"
  by (simp add: wait_for_search_results_def idle_round_def home_url_def)

lemma wait_results: "wait_for_search_results (results_round drv) = Inr True"
  by (simp add: wait_for_search_results_def results_round_def home_url_def results_url_def)

lemma results_round_simps:
  "page (results_round drv) = drv" "stamp (results_round drv) = ''2026-01-01T10:05:00''"
  by (simp_all add: results_round_def)

lemma extract_dead: "extract_flight_data (dead_page u) now = Inr None"
  by (simp add: extract_flight_data_def dead_page_def none_result_def is_Exception_def Let_def)

lemma extract_blocked_results:
  "extract_flight_data (blocked_page results_url) ''2026-01-01T10:05:00'' =
     Inr (Some \<lparr>origin = PyStr ''ATL'', destination = PyStr ''LAX'', date = PyStr ''2026-01-15'',
                flights_found = PyStr ''BLOCKED'', min_miles = PyStr ''BLOCKED'',
                scraped_at = PyStr ''2026-01-01T10:05:00''\<rparr>)"
  by code_simp

lemma scrape_two_queries:
  "scrape_all two_query_world False
      [(''ATL'', ''LAX'', ''2026-01-15''), (''ATL'', ''ORD'', ''2026-01-15'')] 0 [header_row] =
     ([header_row,
       writerow \<lparr>origin = PyStr ''ATL'', destination = PyStr ''LAX'', date = PyStr ''2026-01-15'',
                 flights_found = PyStr ''BLOCKED'', min_miles = PyStr ''BLOCKED'',
                 scraped_at = PyStr ''2026-01-01T10:00:00''\<rparr>,
       writerow \<lparr>origin = PyStr ''ATL'', destination = PyStr ''ORD'', date = PyStr ''2026-01-15'',
                 flights_found = PyStr ''ERROR'', min_miles = PyStr ''ERROR'',
                 scraped_at = PyStr ''2026-01-01T10:00:00''\<rparr>], None)"
  by code_simp

text \<open>
  In interactive mode a pass that times out, and a pass whose extraction fails, leave the
  store as it was: here the file does not even come into being.
\<close>

theorem C7_counterexample:
  "wait_for_search_results idle_round = Inr False \<and>
   search_once idle_round (\<lambda>f. Absent) = (\<lambda>f. Absent, None) \<and>
   extract_flight_data (dead_page results_url) ''2026-01-01T10:05:00'' = Inr None \<and>
   search_once (results_round (dead_page results_url)) (\<lambda>f. Absent) = (\<lambda>f. Absent, None)"
  by (simp add: wait_idle wait_results extract_dead search_once_def results_round_simps)

lemma attempt_propagates: "attempt w debug before q = Inl e \<Longrightarrow> e = KeyboardInterrupt"
  by (cases q) (auto simp: attempt_def dest: scrape_united_awards_propagates)

lemma scrape_all_step:
  "scrape_all w debug (q # queries) n rows =
     (case attempt w debug n q of
        Inl e \<Rightarrow> (rows, Some e)
      | Inr d \<Rightarrow>
          if pause_interrupted w (Suc n)
          then (rows @ [writerow d], Some KeyboardInterrupt)
          else scrape_all w debug queries (Suc n) (rows @ [writerow d]))"
  by (cases q) (simp add: attempt_def)

lemma scrape_all_exact:
  "scrape_all w debug queries n rows = (rows', x) \<Longrightarrow>
   \<exists>ds. length ds \<le> length queries \<and>
     (\<forall>i<length ds. attempt w debug (n + i) (queries ! i) = Inr (ds ! i)) \<and>
     (\<forall>i. 0 < i \<and> i < length ds \<longrightarrow> \<not> pause_interrupted w (n + i)) \<and>
     rows' = rows @ map writerow ds \<and>
     (x = None \<longrightarrow> length ds = length queries) \<and>
     (x \<noteq> None \<longrightarrow> x = Some KeyboardInterrupt \<and>
        ((length ds < length queries \<and>
          attempt w debug (n + length ds) (queries ! length ds) = Inl KeyboardInterrupt) \<or>
         (0 < length ds \<and> pause_interrupted w (n + length ds))))"
proof (induction queries arbitrary: n rows)
  case Nil
  then have "rows' = rows" "x = None" by simp_all
  then show ?case by (intro exI[of _ "[]"]) simp
next
  case (Cons q queries)
  show ?case
  proof (cases "attempt w debug n q")
    case (Inl e)
    then have res: "rows' = rows" "x = Some e"
      using Cons.prems by (simp_all add: scrape_all_step)
    have "e = KeyboardInterrupt" using Inl by (rule attempt_propagates)
    then show ?thesis using res Inl by (intro exI[of _ "[]"]) simp
  next
    case (Inr d)
    show ?thesis
    proof (cases "pause_interrupted w (Suc n)")
      case True
      then have "rows' = rows @ [writerow d]" "x = Some KeyboardInterrupt"
        using Cons.prems Inr by (simp_all add: scrape_all_step)
      then show ?thesis using Inr True by (intro exI[of _ "[d]"]) simp
    next
      case False
      then have "scrape_all w debug queries (Suc n) (rows @ [writerow d]) = (rows', x)"
        using Cons.prems Inr by (simp add: scrape_all_step)
      from Cons.IH[OF this] obtain ds where
        len: "length ds \<le> length queries"
        and att: "\<forall>i<length ds. attempt w debug (Suc n + i) (queries ! i) = Inr (ds ! i)"
        and pau: "\<forall>i. 0 < i \<and> i < length ds \<longrightarrow> \<not> pause_interrupted w (Suc n + i)"
        and rws: "rows' = (rows @ [writerow d]) @ map writerow ds"
        and fin: "x = None \<longrightarrow> length ds = length queries"
        and brk: "x \<noteq> None \<longrightarrow> x = Some KeyboardInterrupt \<and>
            ((length ds < length queries \<and>
              attempt w debug (Suc n + length ds) (queries ! length ds) = Inl KeyboardInterrupt) \<or>
             (0 < length ds \<and> pause_interrupted w (Suc n + length ds)))"
        by blast
      have a: "\<forall>i<length (d # ds). attempt w debug (n + i) ((q # queries) ! i) = Inr ((d # ds) ! i)"
      proof (intro allI impI)
        fix i assume "i < length (d # ds)"
        then show "attempt w debug (n + i) ((q # queries) ! i) = Inr ((d # ds) ! i)"
          using Inr att by (cases i) auto
      qed
      have p: "\<forall>i. 0 < i \<and> i < length (d # ds) \<longrightarrow> \<not> pause_interrupted w (n + i)"
      proof (intro allI impI)
        fix i assume i: "0 < i \<and> i < length (d # ds)"
        then obtain j where j: "i = Suc j" by (cases i) auto
        show "\<not> pause_interrupted w (n + i)"
        proof (cases j)
          case 0
          then show ?thesis using False j by simp
        next
          case (Suc k)
          then have "0 < j \<and> j < length ds" using i j by simp
          then have "\<not> pause_interrupted w (Suc n + j)" using pau by blast
          then show ?thesis using j by simp
        qed
      qed
      have b: "x \<noteq> None \<longrightarrow> x = Some KeyboardInterrupt \<and>
            ((length (d # ds) < length (q # queries) \<and>
              attempt w debug (n + length (d # ds)) ((q # queries) ! length (d # ds)) = Inl KeyboardInterrupt) \<or>
             (0 < length (d # ds) \<and> pause_interrupted w (n + length (d # ds))))"
        using brk by auto
      show ?thesis
        using len a p rws fin b by (intro exI[of _ "d # ds"]) simp
    qed
  qed
qed

lemma scrape_paused:
  "scrape_all paused_world False
      [(''ATL'', ''LAX'', ''2026-01-15''), (''ATL'', ''ORD'', ''2026-01-15'')] 0 [header_row] =
     ([header_row,
       writerow \<lparr>origin = PyStr ''ATL'', destination = PyStr ''LAX'', date = PyStr ''2026-01-15'',
                 flights_found = PyStr ''BLOCKED'', min_miles = PyStr ''BLOCKED'',
                 scraped_at = PyStr ''2026-01-01T10:00:00''\<rparr>], Some KeyboardInterrupt)"
  by code_simp

text \<open>
  C7, as the code has it. Batch mode: when the loop ends, the file holds the rows it held
  before, followed by exactly the rows of the attempts that returned, one each and in
  order, whatever their outcome (found, empty, blocked, error). The loop ends after the
  last query, or earlier on \<^verbatim>\<open>KeyboardInterrupt\<close>: raised inside an attempt, which then
  leaves no row, or in the pause after an attempt, whose row is already written. When
  \<^verbatim>\<open>main\<close> returns, the file holds the header and one row per route and date.
  Interactive mode: a pass appends exactly one row (after the header, when the file was
  absent) when the results page was detected, extraction returned a record, the blocked
  record included, and the file can be opened; a pass that times out, a pass whose
  extraction returns \<^verbatim>\<open>None\<close> and a pass against a file that cannot be opened append
  nothing.
\<close>

theorem C7_rows_per_attempt:
  "(scrape_all w debug queries n rows = (rows', x) \<longrightarrow>
      (\<exists>ds. length ds \<le> length queries \<and>
         (\<forall>i<length ds. attempt w debug (n + i) (queries ! i) = Inr (ds ! i)) \<and>
         (\<forall>i. 0 < i \<and> i < length ds \<longrightarrow> \<not> pause_interrupted w (n + i)) \<and>
         rows' = rows @ map writerow ds \<and>
         (x = None \<longrightarrow> length ds = length queries) \<and>
         (x \<noteq> None \<longrightarrow> x = Some KeyboardInterrupt \<and>
            ((length ds < length queries \<and>
              attempt w debug (n + length ds) (queries ! length ds) = Inl KeyboardInterrupt) \<or>
             (0 < length ds \<and> pause_interrupted w (n + length ds)))))) \<and>
   (scrape_all w debug queries n rows = (rows', x) \<longrightarrow>
      take (length rows) rows' = rows \<and>
      (x = None \<longrightarrow> length rows' = length rows + length queries) \<and>
      (x \<noteq> None \<longrightarrow> x = Some KeyboardInterrupt \<and> length rows' \<le> length rows + length queries)) \<and>
   (wait_for_search_results ra = Inr True \<and>
    extract_flight_data (page ra) (stamp ra) = Inr (Some da) \<and> fsa output_file = Present old \<longrightarrow>
      search_once ra fsa = (fsa(output_file := Present (old @ [writerow da])), None)) \<and>
   (wait_for_search_results rb = Inr True \<and>
    extract_flight_data (page rb) (stamp rb) = Inr (Some db) \<and> fsb output_file = Absent \<longrightarrow>
      search_once rb fsb = (fsb(output_file := Present [header_row, writerow db]), None)) \<and>
   (wait_for_search_results re = Inr True \<and>
    extract_flight_data (page re) (stamp re) = Inr (Some de) \<and> fse output_file = Denied \<longrightarrow>
      search_once re fse = (fse, None)) \<and>
   (wait_for_search_results rc = Inr False \<longrightarrow> search_once rc fsc = (fsc, None)) \<and>
   (wait_for_search_results rd = Inr True \<and>
    extract_flight_data (page rd) (stamp rd) = Inr None \<longrightarrow> search_once rd fsd = (fsd, None)) \<and>
   (outcome (scrape_united_main test_mode dbg manual_login wm fsm) = Returned \<longrightarrow>
      (\<exists>new. store (scrape_united_main test_mode dbg manual_login wm fsm) output_file =
                 Present (header_row # new) \<and>
             length new = length (if test_mode then take 1 generate_routes else generate_routes) *
                          (if test_mode then 2 else 365)))"
proof -
  have exact: "scrape_all w debug queries n rows = (rows', x) \<longrightarrow>
      (\<exists>ds. length ds \<le> length queries \<and>
         (\<forall>i<length ds. attempt w debug (n + i) (queries ! i) = Inr (ds ! i)) \<and>
         (\<forall>i. 0 < i \<and> i < length ds \<longrightarrow> \<not> pause_interrupted w (n + i)) \<and>
         rows' = rows @ map writerow ds \<and>
         (x = None \<longrightarrow> length ds = length queries) \<and>
         (x \<noteq> None \<longrightarrow> x = Some KeyboardInterrupt \<and>
            ((length ds < length queries \<and>
              attempt w debug (n + length ds) (queries ! length ds) = Inl KeyboardInterrupt) \<or>
             (0 < length ds \<and> pause_interrupted w (n + length ds)))))"
    using scrape_all_exact[of w debug queries n rows rows' x] by blast
  have counts: "scrape_all w debug queries n rows = (rows', x) \<longrightarrow>
      take (length rows) rows' = rows \<and>
      (x = None \<longrightarrow> length rows' = length rows + length queries) \<and>
      (x \<noteq> None \<longrightarrow> x = Some KeyboardInterrupt \<and> length rows' \<le> length rows + length queries)"
  proof
    assume run: "scrape_all w debug queries n rows = (rows', x)"
    from scrape_all_rows[OF run] obtain new where
      new: "rows' = rows @ new"
      "x = None \<longrightarrow> length new = length queries"
      "x \<noteq> None \<longrightarrow> x = Some KeyboardInterrupt \<and> length new \<le> length queries"
      by blast
    then show "take (length rows) rows' = rows \<and>
      (x = None \<longrightarrow> length rows' = length rows + length queries) \<and>
      (x \<noteq> None \<longrightarrow> x = Some KeyboardInterrupt \<and> length rows' \<le> length rows + length queries)"
      by simp
  qed
  have present: "wait_for_search_results ra = Inr True \<and>
    extract_flight_data (page ra) (stamp ra) = Inr (Some da) \<and> fsa output_file = Present old \<longrightarrow>
      search_once ra fsa = (fsa(output_file := Present (old @ [writerow da])), None)"
    by (simp add: search_once_saved save_to_csv_present)
  have absent: "wait_for_search_results rb = Inr True \<and>
    extract_flight_data (page rb) (stamp rb) = Inr (Some db) \<and> fsb output_file = Absent \<longrightarrow>
      search_once rb fsb = (fsb(output_file := Present [header_row, writerow db]), None)"
    by (simp add: search_once_saved save_to_csv_absent)
  have denied: "wait_for_search_results re = Inr True \<and>
    extract_flight_data (page re) (stamp re) = Inr (Some de) \<and> fse output_file = Denied \<longrightarrow>
      search_once re fse = (fse, None)"
    by (simp add: search_once_saved save_to_csv_denied)
  have timeout: "wait_for_search_results rc = Inr False \<longrightarrow> search_once rc fsc = (fsc, None)"
    by (simp add: search_once_def)
  have failed: "wait_for_search_results rd = Inr True \<and>
    extract_flight_data (page rd) (stamp rd) = Inr None \<longrightarrow> search_once rd fsd = (fsd, None)"
    by (simp add: search_once_def)
  have whole: "outcome (scrape_united_main test_mode dbg manual_login wm fsm) = Returned \<longrightarrow>
      (\<exists>new. store (scrape_united_main test_mode dbg manual_login wm fsm) output_file =
                 Present (header_row # new) \<and>
             length new = length (if test_mode then take 1 generate_routes else generate_routes) *
                          (if test_mode then 2 else 365))"
    using scrape_united_main_rows[of test_mode dbg manual_login wm fsm] by blast
  show ?thesis
    apply (intro conjI)
           apply (rule exact)
          apply (rule counts)
         apply (rule present)
        apply (rule absent)
       apply (rule denied)
      apply (rule timeout)
     apply (rule failed)
    apply (rule whole)
    done
qed

theorem C7_witness:
  "scrape_all two_query_world False
      [(''ATL'', ''LAX'', ''2026-01-15''), (''ATL'', ''ORD'', ''2026-01-15'')] 0 [header_row] =
     ([header_row,
       writerow \<lparr>origin = PyStr ''ATL'', destination = PyStr ''LAX'', date = PyStr ''2026-01-15'',
                 flights_found = PyStr ''BLOCKED'', min_miles = PyStr ''BLOCKED'',
                 scraped_at = PyStr ''2026-01-01T10:00:00''\<rparr>,
       writerow \<lparr>origin = PyStr ''ATL'', destination = PyStr ''ORD'', date = PyStr ''2026-01-15'',
                 flights_found = PyStr ''ERROR'', min_miles = PyStr ''ERROR'',
                 scraped_at = PyStr ''2026-01-01T10:00:00''\<rparr>], None) \<and>
   scrape_all paused_world False
      [(''ATL'', ''LAX'', ''2026-01-15''), (''ATL'', ''ORD'', ''2026-01-15'')] 0 [header_row] =
     ([header_row,
       writerow \<lparr>origin = PyStr ''ATL'', destination = PyStr ''LAX'', date = PyStr ''2026-01-15'',
                 flights_found = PyStr ''BLOCKED'', min_miles = PyStr ''BLOCKED'',
                 scraped_at = PyStr ''2026-01-01T10:00:00''\<rparr>], Some KeyboardInterrupt) \<and>
   search_once (results_round (blocked_page results_url))
      ((\<lambda>f. Absent)(output_file := Present [header_row])) =
     ((\<lambda>f. Absent)(output_file := Present [header_row,
       writerow \<lparr>origin = PyStr ''ATL'', destination = PyStr ''LAX'', date = PyStr ''2026-01-15'',
                 flights_found = PyStr ''BLOCKED'', min_miles = PyStr ''BLOCKED'',
                 scraped_at = PyStr ''2026-01-01T10:05:00''\<rparr>]), None) \<and>
   search_once (results_round (blocked_page results_url)) (\<lambda>f. Absent) =
     ((\<lambda>f. Absent)(output_file := Present [header_row,
       writerow \<lparr>origin = PyStr ''ATL'', destination = PyStr ''LAX'', date = PyStr ''2026-01-15'',
                 flights_found = PyStr ''BLOCKED'', min_miles = PyStr ''BLOCKED'',
                 scraped_at = PyStr ''2026-01-01T10:05:00''\<rparr>]), None) \<and>
   search_once (results_round (blocked_page results_url)) ((\<lambda>f. Absent)(output_file := Denied)) =
     ((\<lambda>f. Absent)(output_file := Denied), None) \<and>
   search_once idle_round ((\<lambda>f. Absent)(output_file := Present [header_row])) =
     ((\<lambda>f. Absent)(output_file := Present [header_row]), None) \<and>
   search_once (results_round (dead_page results_url))
      ((\<lambda>f. Absent)(output_file := Present [header_row])) =
     ((\<lambda>f. Absent)(output_file := Present [header_row]), None) \<and>
   outcome (scrape_united_main True False False two_query_world (\<lambda>f. Absent)) = Returned \<and>
   store (scrape_united_main True False False two_query_world (\<lambda>f. Absent)) output_file =
     Present [header_row,
       writerow \<lparr>origin = PyStr ''ATL'', destination = PyStr ''LAX'', date = PyStr ''2026-01-15'',
                 flights_found = PyStr ''BLOCKED'', min_miles = PyStr ''BLOCKED'',
                 scraped_at = PyStr ''2026-01-01T10:00:00''\<rparr>,
       writerow \<lparr>origin = PyStr ''ATL'', destination = PyStr ''LAX'', date = PyStr ''2026-01-16'',
                 flights_found = PyStr ''ERROR'', min_miles = PyStr ''ERROR'',
                 scraped_at = PyStr ''2026-01-01T10:00:00''\<rparr>]"
  using C7_rows_per_attempt
    [where w = two_query_world and debug = False
       and queries = "[(''ATL'', ''LAX'', ''2026-01-15''), (''ATL'', ''ORD'', ''2026-01-15'')]"
       and n = 0 and rows = "[header_row]" and x = None
       and rows' = "[header_row,
       writerow \<lparr>origin = PyStr ''ATL'', destination = PyStr ''LAX'', date = PyStr ''2026-01-15'',
                 flights_found = PyStr ''BLOCKED'', min_miles = PyStr ''BLOCKED'',
                 scraped_at = PyStr ''2026-01-01T10:00:00''\<rparr>,
       writerow \<lparr>origin = PyStr ''ATL'', destination = PyStr ''ORD'', date = PyStr ''2026-01-15'',
                 flights_found = PyStr ''ERROR'', min_miles = PyStr ''ERROR'',
                 scraped_at = PyStr ''2026-01-01T10:00:00''\<rparr>]"
       and ra = "results_round (blocked_page results_url)"
       and da = "\<lparr>origin = PyStr ''ATL'', destination = PyStr ''LAX'', date = PyStr ''2026-01-15'',
                 flights_found = PyStr ''BLOCKED'', min_miles = PyStr ''BLOCKED'',
                 scraped_at = PyStr ''2026-01-01T10:05:00''\<rparr>"
       and fsa = "(\<lambda>f. Absent)(output_file := Present [header_row])" and old = "[header_row]"
       and rb = "results_round (blocked_page results_url)"
       and db = "\<lparr>origin = PyStr ''ATL'', destination = PyStr ''LAX'', date = PyStr ''2026-01-15'',
                 flights_found = PyStr ''BLOCKED'', min_miles = PyStr ''BLOCKED'',
                 scraped_at = PyStr ''2026-01-01T10:05:00''\<rparr>"
       and fsb = "\<lambda>f. Absent"
       and re = "results_round (blocked_page results_url)"
       and de = "\<lparr>origin = PyStr ''ATL'', destination = PyStr ''LAX'', date = PyStr ''2026-01-15'',
                 flights_found = PyStr ''BLOCKED'', min_miles = PyStr ''BLOCKED'',
                 scraped_at = PyStr ''2026-01-01T10:05:00''\<rparr>"
       and fse = "(\<lambda>f. Absent)(output_file := Denied)"
       and rc = idle_round and fsc = "(\<lambda>f. Absent)(output_file := Present [header_row])"
       and rd = "results_round (dead_page results_url)"
       and fsd = "(\<lambda>f. Absent)(output_file := Present [header_row])"
       and test_mode = True and dbg = False and manual_login = False
       and wm = two_query_world and fsm = "\<lambda>f. Absent"]
    C7_rows_per_attempt
    [where w = paused_world and debug = False
       and queries = "[(''ATL'', ''LAX'', ''2026-01-15''), (''ATL'', ''ORD'', ''2026-01-15'')]"
       and n = 0 and rows = "[header_row]" and x = "Some KeyboardInterrupt"
       and rows' = "[header_row,
       writerow \<lparr>origin = PyStr ''ATL'', destination = PyStr ''LAX'', date = PyStr ''2026-01-15'',
                 flights_found = PyStr ''BLOCKED'', min_miles = PyStr ''BLOCKED'',
                 scraped_at = PyStr ''2026-01-01T10:00:00''\<rparr>]"]
  by (simp add: scrape_two_queries scrape_paused wait_idle wait_results results_round_simps
        extract_blocked_results extract_dead main_two_queries del: scrape_all.simps)

subsection \<open>Closing the browser\<close>

lemma scrape_united_main_quit_once:
  "launch w = None \<Longrightarrow>
   (if manual_login then manual_login_phase (web w) (login_prompt w) else None) = None \<Longrightarrow>
   quit_calls (scrape_united_main test_mode debug manual_login w fs) = 1"
  by (simp add: scrape_united_main_def Let_def split: sum.splits prod.splits option.splits)

lemma auto_scraper_main_quit_once:
  "start_prompt w = None \<Longrightarrow> launch_browser w = None \<Longrightarrow>
   outcome (auto_scraper_main w fs) \<noteq> Running \<Longrightarrow>
   quit_calls (auto_scraper_main w fs) = 1 \<and> outcome (auto_scraper_main w fs) = Returned"
  by (auto simp: auto_scraper_main_def split: option.splits prod.splits)

lemma auto_scraper_main_running:
  "outcome (auto_scraper_main w fs) = Running \<longleftrightarrow>
   start_prompt w = None \<and> launch_browser w = None \<and> homepage w = None \<and>
   logged_in_prompt w = None \<and> snd (monitor (rounds w) fs) = None"
  by (auto simp: auto_scraper_main_def split: option.splits prod.splits)

text \<open>
  C2. In batch mode with manual login, an interrupt at the login prompt and a failure to
  load the home page both leave \<^verbatim>\<open>main\<close> without \<^verbatim>\<open>driver.quit()\<close>: these steps stand
  before the \<^verbatim>\<open>try\<close>. In interactive mode the same steps stand inside the \<^verbatim>\<open>try\<close>, and the
  browser is closed once.
\<close>

theorem C2_login_phase_outside_try:
  "scrape_united_main True False True interrupted_login_world (\<lambda>f. Absent) =
     \<lparr>quit_calls = 0, store = (\<lambda>f. Absent), outcome = Raised KeyboardInterrupt\<rparr> \<and>
   scrape_united_main True False True unreachable_home_world (\<lambda>f. Absent) =
     \<lparr>quit_calls = 0, store = (\<lambda>f. Absent), outcome = Raised WebDriverException\<rparr> \<and>
   auto_scraper_main interrupted_interactive_world (\<lambda>f. Absent) =
     \<lparr>quit_calls = 1, store = (\<lambda>f. Absent), outcome = Returned\<rparr>"
  by (simp add: scrape_united_main_def Let_def interrupted_login_world_def
        unreachable_home_world_def manual_login_phase_def auto_scraper_main_def
        interrupted_interactive_world_def)

subsection \<open>Price parsing\<close>

lemma isspace_not_isdigit: "isspace c \<Longrightarrow> \<not> isdigit c"
  by (auto simp: isspace_def isdigit_def Let_def)

lemma filter_dropWhile_disjoint:
  "(\<And>c. Q c \<Longrightarrow> \<not> P c) \<Longrightarrow> filter P (dropWhile Q xs) = filter P xs"
  by (induction xs) auto

lemma digits_of_filter: "digits_of t = filter isdigit t"
proof -
  have "filter isdigit (strip t) = rev (filter isdigit (dropWhile isspace (rev (dropWhile isspace t))))"
    by (simp add: strip_def rev_filter)
  also have "\<dots> = rev (filter isdigit (rev (dropWhile isspace t)))"
    by (simp add: filter_dropWhile_disjoint isspace_not_isdigit)
  also have "\<dots> = filter isdigit (dropWhile isspace t)"
    by (simp add: rev_filter)
  also have "\<dots> = filter isdigit t"
    by (simp add: filter_dropWhile_disjoint isspace_not_isdigit)
  finally show ?thesis by (simp add: digits_of_def)
qed

text \<open>
  On texts in which every character that \<^verbatim>\<open>isdigit\<close> accepts is a decimal digit (every
  ASCII text is one), the loop does collect exactly the intended prices, and the
  selected minimum is their least element.
\<close>

lemma miles_loop_decimal:
  "list_all (\<lambda>t. list_all isdecimal (filter isdigit t)) texts \<Longrightarrow>
   miles_loop (map elem texts) acc = Inr (acc @ parsed_prices texts)"
proof (induction texts arbitrary: acc)
  case Nil
  then show ?case by (simp add: parsed_prices_def)
next
  case (Cons t texts)
  then have dec: "list_all isdecimal (filter isdigit t)"
    and rest: "list_all (\<lambda>t. list_all isdecimal (filter isdigit t)) texts" by simp_all
  show ?case
  proof (cases "filter isdigit t = []")
    case True
    then show ?thesis
      using Cons.IH[OF rest] by (simp add: elem_def digits_of_filter parsed_prices_def)
  next
    case False
    then have "py_int (filter isdigit t) = Inr (foldl (\<lambda>a c. 10 * a + digit_value c) 0 (filter isdigit t))"
      using dec by (simp add: py_int_def)
    then show ?thesis
      using False Cons.IH[OF rest] by (simp add: elem_def digits_of_filter parsed_prices_def)
  qed
qed

lemma select_min_Min:
  assumes "ps \<noteq> []"
  shows "select_min ps = Some (Min (set ps))"
proof (cases ps)
  case Nil
  then show ?thesis using assms by simp
next
  case (Cons p ps')
  have "Min (set (p # ps')) = fold min ps' p" by (rule Min.set_eq_fold)
  then show ?thesis using Cons by (simp add: select_min_def)
qed

lemma ascii_text_decimal:
  "list_all (\<lambda>c. of_char c < (128::nat)) t \<Longrightarrow> list_all isdecimal (filter isdigit t)"
  by (induction t) (auto simp: isdigit_def isdecimal_def Let_def)

text \<open>
  C5. On the three texts of the example the loop collects \<open>12500\<close> and \<open>8000\<close> and the
  minimum is \<open>8000\<close>, as claimed. But a text that ends in a superscript one keeps that
  character through the \<^verbatim>\<open>isdigit\<close> filter, and \<^verbatim>\<open>int\<close> raises \<^verbatim>\<open>ValueError\<close> on the
  remainder: the loop is left, the prices collected before are dropped, batch mode
  records \<^verbatim>\<open>'N/A'\<close> and interactive mode returns \<^verbatim>\<open>None\<close>.
\<close>

theorem C5_superscript_digit_breaks_parsing:
  "miles_loop [elem ''12,500 miles'', elem ''8,000'', elem ''award n/a''] [] = Inr [12500, 8000] \<and>
   select_min [12500, 8000] = Some 8000 \<and>
   digits_of footnoted = ''9000'' @ [CHR 0xB9] \<and>
   py_int (''9000'' @ [CHR 0xB9]) = Inl ValueError \<and>
   miles_loop [elem ''12,500 miles'', elem ''8,000'', elem footnoted] [] = Inl ValueError \<and>
   scrape_united_awards ''ATL'' ''LAX'' ''2026-01-15''
      (\<lambda>u. Inr (static_page u [] [elem ''UA 100'']
                   [elem ''12,500 miles'', elem ''8,000'', elem footnoted] []))
      False ''2026-01-01T10:00:00'' =
     Inr \<lparr>origin = PyStr ''ATL'', destination = PyStr ''LAX'', date = PyStr ''2026-01-15'',
          flights_found = PyInt 1, min_miles = PyStr ''N/A'',
          scraped_at = PyStr ''2026-01-01T10:00:00''\<rparr> \<and>
   extract_flight_data
      (static_page (search_url ''ATL'' ''LAX'' ''2026-01-15'') [] [elem ''UA 100'']
         [elem ''12,500 miles'', elem ''8,000'', elem footnoted] [])
      ''2026-01-01T10:00:00'' = Inr None"
  by code_simp

text \<open>
  C10. The digits of \<^verbatim>\<open>"1 stop 12,500 miles"\<close> are read as the one number \<open>112500\<close>, as
  claimed. But an element whose text holds digits and a superscript two contributes no
  value: \<^verbatim>\<open>int\<close> raises, and with it the whole price step fails.
\<close>

theorem C10_superscript_digit_contributes_nothing:
  "miles_loop [elem ''1 stop 12,500 miles''] [] = Inr [112500] \<and>
   list_ex isdecimal squared \<and>
   miles_loop [elem squared] [] = Inl ValueError \<and>
   miles_loop [elem ''1 stop 12,500 miles'', elem squared] [] = Inl ValueError \<and>
   extract_flight_data
      (static_page (search_url ''ATL'' ''LAX'' ''2026-01-15'') [] [elem ''UA 100''] [elem squared] [])
      ''2026-01-01T10:00:00'' = Inr None"
  by code_simp

end
